theory Spec2Isabelle
  imports Main "HOL-Library.Word" "HOL-Library.AList"
begin

section \<open>Values of the Go runtime\<close>

text \<open>
  A \<open>primitive.ObjectID\<close> is a \<open>[12]byte\<close>; its zero value is twelve zero bytes.
  A \<open>time.Time\<close> is an instant, in nanoseconds since the Unix epoch, read by
  \<open>time.Now()\<close>.
  A Go slice is either \<open>nil\<close> or a sequence: the two differ in JSON
  (\<open>null\<close> against \<open>[...]\<close>), and \<open>GetTodos\<close> tells them apart.
\<close>

type_synonym byte = "8 word"

type_synonym ObjectID = "byte list"

type_synonym time = int

datatype 'a slice = NilSlice | Slice "'a list"

definition NilObjectID :: ObjectID where
  "NilObjectID = replicate 12 0"

subsection \<open>BSON date-times\<close>

text \<open>
  The driver writes a \<open>time.Time\<close> as a BSON \<open>DateTime\<close>, the whole milliseconds
  since the Unix epoch (\<open>primitive.NewDateTimeFromTime\<close>), and reads it back with
  \<open>DateTime.Time\<close>: \<open>persisted t\<close> is the instant \<open>t\<close> after that round trip, cut
  to its millisecond.
\<close>

definition NewDateTimeFromTime :: "time \<Rightarrow> int" where
  "NewDateTimeFromTime t = t div 1000000"

definition DateTime_Time :: "int \<Rightarrow> time" where
  "DateTime_Time ms = ms * 1000000"

definition persisted :: "time \<Rightarrow> time" where
  "persisted t = DateTime_Time (NewDateTimeFromTime t)"

subsection \<open>\<open>primitive.ObjectIDFromHex\<close>\<close>

text \<open>
  \<open>ObjectIDFromHex\<close> accepts exactly the strings of 24 hexadecimal digits (either
  case) and decodes them pairwise with \<open>encoding/hex\<close>; \<open>None\<close> is its
  \<open>ErrInvalidHex\<close> / \<open>InvalidByteError\<close>.
\<close>

definition fromHexChar :: "char \<Rightarrow> nat option" where
  "fromHexChar c =
     (let n = of_char c :: nat in
      if 48 \<le> n \<and> n \<le> 57 then Some (n - 48)
      else if 97 \<le> n \<and> n \<le> 102 then Some (n - 97 + 10)
      else if 65 \<le> n \<and> n \<le> 70 then Some (n - 65 + 10)
      else None)"

fun hex_Decode :: "string \<Rightarrow> byte list option" where
  "hex_Decode [] = Some []"
| "hex_Decode [a] = None"
| "hex_Decode (a # b # cs) =
     (case fromHexChar a of
        None \<Rightarrow> None
      | Some x \<Rightarrow>
          (case fromHexChar b of
             None \<Rightarrow> None
           | Some y \<Rightarrow>
               (case hex_Decode cs of
                  None \<Rightarrow> None
                | Some bs \<Rightarrow> Some (of_nat (x * 16 + y) # bs))))"

definition ObjectIDFromHex :: "string \<Rightarrow> ObjectID option" where
  "ObjectIDFromHex s = (if length s \<noteq> 24 then None else hex_Decode s)"

section \<open>Package \<open>models\<close>\<close>

text \<open>
  The three structs of \<open>models\<close>. A pointer field of \<open>UpdateTodoRequest\<close> is an
  option: \<open>None\<close> is the \<open>nil\<close> pointer of a field the body does not carry.
\<close>

record CreateTodoRequest =
  Title :: string
  Description :: string

record UpdateTodoRequest =
  Title :: "string option"
  Description :: "string option"
  Completed :: "bool option"

record Todo =
  ID :: ObjectID
  UserID :: string
  Title :: string
  Description :: string
  Completed :: bool
  CreatedAt :: time
  UpdatedAt :: time

section \<open>Request bodies and \<open>ShouldBindJSON\<close>\<close>

text \<open>
  A request body is the first JSON value the decoder reads from it, or \<open>None\<close> when
  the body holds no well-formed JSON value (empty bodies included). An object keeps its
  members in the order of the text, duplicates included, as the decoder meets them.
\<close>

datatype json =
    JNull
  | JBool bool
  | JNumber int
  | JString string
  | JArray "json list"
  | JObject "(string \<times> json) list"

datatype binding_error = SyntaxError | UnmarshalTypeError | FieldRequired string

text \<open>
  \<open>encoding/json\<close> matches an object key to a struct field by the field's \<open>json\<close>
  tag under Unicode simple case folding; a key that matches no field is skipped.
  \<open>null\<close> leaves a plain field as it is and makes a pointer field \<open>nil\<close>; a value of
  the wrong JSON type is an \<open>UnmarshalTypeError\<close>; a later duplicate of a key
  overwrites an earlier one.

  Keys are UTF-8 byte strings. \<open>foldKey\<close> folds a key for the comparison with the
  (ASCII, lower-case) tags: an ASCII letter folds to its lower case, and the two
  non-ASCII runes whose fold orbit holds an ASCII letter fold to it, U+017F (bytes
  \<open>C5 BF\<close>) to \<open>s\<close> and U+212A (bytes \<open>E2 84 AA\<close>) to \<open>k\<close>. Every other rune
  folds to non-ASCII runes only, so its bytes are kept: they match no tag either way.
\<close>

definition toLower :: "char \<Rightarrow> char" where
  "toLower c =
     (let n = of_char c :: nat in
      if 65 \<le> n \<and> n \<le> 90
      then (case c of Char b0 b1 b2 b3 b4 b5 b6 b7 \<Rightarrow> Char b0 b1 b2 b3 b4 True b6 b7)
      else c)"

fun foldKey :: "string \<Rightarrow> string" where
  "foldKey [] = []"
| "foldKey (a # cs) =
     (if of_char a = (197 :: nat) \<and> map of_char (take 1 cs) = [191 :: nat]
      then CHR ''s'' # foldKey (drop 1 cs)
      else if of_char a = (226 :: nat) \<and> map of_char (take 2 cs) = [132, 170 :: nat]
      then CHR ''k'' # foldKey (drop 2 cs)
      else toLower a # foldKey cs)"

definition into_string :: "json \<Rightarrow> string \<Rightarrow> string option" where
  "into_string v cur =
     (case v of JString s \<Rightarrow> Some s | JNull \<Rightarrow> Some cur | _ \<Rightarrow> None)"

definition into_string_ptr :: "json \<Rightarrow> string option option" where
  "into_string_ptr v =
     (case v of JString s \<Rightarrow> Some (Some s) | JNull \<Rightarrow> Some None | _ \<Rightarrow> None)"

definition into_bool_ptr :: "json \<Rightarrow> bool option option" where
  "into_bool_ptr v =
     (case v of JBool b \<Rightarrow> Some (Some b) | JNull \<Rightarrow> Some None | _ \<Rightarrow> None)"

fun object_CreateTodoRequest ::
  "(string \<times> json) list \<Rightarrow> CreateTodoRequest \<Rightarrow> CreateTodoRequest option" where
  "object_CreateTodoRequest [] r = Some r"
| "object_CreateTodoRequest ((k, v) # kvs) r =
     (if foldKey k = ''title'' then
        (case into_string v (CreateTodoRequest.Title r) of
           None \<Rightarrow> None
         | Some s \<Rightarrow> object_CreateTodoRequest kvs (r\<lparr>CreateTodoRequest.Title := s\<rparr>))
      else if foldKey k = ''description'' then
        (case into_string v (CreateTodoRequest.Description r) of
           None \<Rightarrow> None
         | Some s \<Rightarrow> object_CreateTodoRequest kvs (r\<lparr>CreateTodoRequest.Description := s\<rparr>))
      else object_CreateTodoRequest kvs r)"

definition Unmarshal_CreateTodoRequest :: "json \<Rightarrow> CreateTodoRequest option" where
  "Unmarshal_CreateTodoRequest j =
     (let zero = \<lparr>CreateTodoRequest.Title = [], CreateTodoRequest.Description = []\<rparr> in
      case j of
        JNull \<Rightarrow> Some zero
      | JObject kvs \<Rightarrow> object_CreateTodoRequest kvs zero
      | _ \<Rightarrow> None)"

text \<open>
  \<open>ShouldBindJSON\<close> decodes, then validates the \<open>binding\<close> tags: \<open>required\<close> on
  \<open>CreateTodoRequest.Title\<close> rejects the zero value, the empty string.
  \<open>UpdateTodoRequest\<close> has no \<open>binding\<close> tag, so nothing is validated there.
\<close>

definition ShouldBindJSON_CreateTodoRequest ::
  "json option \<Rightarrow> binding_error + CreateTodoRequest" where
  "ShouldBindJSON_CreateTodoRequest body =
     (case body of
        None \<Rightarrow> Inl SyntaxError
      | Some j \<Rightarrow>
          (case Unmarshal_CreateTodoRequest j of
             None \<Rightarrow> Inl UnmarshalTypeError
           | Some r \<Rightarrow>
               if CreateTodoRequest.Title r = [] then Inl (FieldRequired ''Title'')
               else Inr r))"

fun object_UpdateTodoRequest ::
  "(string \<times> json) list \<Rightarrow> UpdateTodoRequest \<Rightarrow> UpdateTodoRequest option" where
  "object_UpdateTodoRequest [] r = Some r"
| "object_UpdateTodoRequest ((k, v) # kvs) r =
     (if foldKey k = ''title'' then
        (case into_string_ptr v of
           None \<Rightarrow> None
         | Some p \<Rightarrow> object_UpdateTodoRequest kvs (r\<lparr>UpdateTodoRequest.Title := p\<rparr>))
      else if foldKey k = ''description'' then
        (case into_string_ptr v of
           None \<Rightarrow> None
         | Some p \<Rightarrow> object_UpdateTodoRequest kvs (r\<lparr>UpdateTodoRequest.Description := p\<rparr>))
      else if foldKey k = ''completed'' then
        (case into_bool_ptr v of
           None \<Rightarrow> None
         | Some p \<Rightarrow> object_UpdateTodoRequest kvs (r\<lparr>UpdateTodoRequest.Completed := p\<rparr>))
      else object_UpdateTodoRequest kvs r)"

definition Unmarshal_UpdateTodoRequest :: "json \<Rightarrow> UpdateTodoRequest option" where
  "Unmarshal_UpdateTodoRequest j =
     (let zero = \<lparr>UpdateTodoRequest.Title = None, UpdateTodoRequest.Description = None,
                  UpdateTodoRequest.Completed = None\<rparr> in
      case j of
        JNull \<Rightarrow> Some zero
      | JObject kvs \<Rightarrow> object_UpdateTodoRequest kvs zero
      | _ \<Rightarrow> None)"

definition ShouldBindJSON_UpdateTodoRequest ::
  "json option \<Rightarrow> binding_error + UpdateTodoRequest" where
  "ShouldBindJSON_UpdateTodoRequest body =
     (case body of
        None \<Rightarrow> Inl SyntaxError
      | Some j \<Rightarrow>
          (case Unmarshal_UpdateTodoRequest j of
             None \<Rightarrow> Inl UnmarshalTypeError
           | Some r \<Rightarrow> Inr r))"

text \<open>
  \<open>member kvs tag\<close> is the value an object carries for a tag: that of its last
  member whose key folds to the tag, if there is one.
\<close>

abbreviation member :: "(string \<times> json) list \<Rightarrow> string \<Rightarrow> json option" where
  "member kvs tag \<equiv> map_of (rev (map (\<lambda>kv. (foldKey (fst kv), snd kv)) kvs)) tag"

section \<open>The document store\<close>

text \<open>
  A \<open>bson.M\<close> is a map from keys to Go values, kept here as an association list.
  The collection holds the documents this service writes, in insertion order; a stored
  document is read through its \<open>bson\<close> tags. The driver marshals every document it
  sends (filter, update, inserted struct): a \<open>time.Time\<close> in it is cut to its
  millisecond.
\<close>

datatype bson =
    OID ObjectID
  | Str string
  | Boolean bool
  | Time time
  | Doc "(string \<times> bson) list"

type_synonym bson_M = "(string \<times> bson) list"

primrec marshal :: "bson \<Rightarrow> bson" where
  "marshal (OID i) = OID i"
| "marshal (Str s) = Str s"
| "marshal (Boolean b) = Boolean b"
| "marshal (Time t) = Time (persisted t)"
| "marshal (Doc kvs) = Doc (map (map_prod id marshal) kvs)"

definition marshal_M :: "bson_M \<Rightarrow> bson_M" where
  "marshal_M m = map (map_prod id marshal) m"

definition marshal_Todo :: "Todo \<Rightarrow> Todo" where
  "marshal_Todo d =
     d\<lparr>CreatedAt := persisted (CreatedAt d), UpdatedAt := persisted (UpdatedAt d)\<rparr>"

definition document_field :: "Todo \<Rightarrow> string \<Rightarrow> bson option" where
  "document_field d k =
     (if k = ''_id'' then Some (OID (ID d))
      else if k = ''user_id'' then Some (Str (UserID d))
      else if k = ''title'' then Some (Str (Todo.Title d))
      else if k = ''description'' then Some (Str (Todo.Description d))
      else if k = ''completed'' then Some (Boolean (Todo.Completed d))
      else if k = ''created_at'' then Some (Time (CreatedAt d))
      else if k = ''updated_at'' then Some (Time (UpdatedAt d))
      else None)"

text \<open>
  A (marshalled) filter of equalities matches a document that has every listed value.
\<close>

definition matches :: "bson_M \<Rightarrow> Todo \<Rightarrow> bool" where
  "matches flt d = list_all (\<lambda>kv. document_field d (fst kv) = Some (snd kv)) flt"

text \<open>
  \<open>$set\<close> writes each listed field of the (marshalled) update document. The handlers
  write \<open>title\<close>, \<open>description\<close>, \<open>completed\<close> and \<open>updated_at\<close> only, each with a
  value of the field's type; any other update document is refused (\<open>None\<close>).
\<close>

definition set_field :: "string \<times> bson \<Rightarrow> Todo \<Rightarrow> Todo option" where
  "set_field kv d =
     (if fst kv = ''title'' then
        (case snd kv of Str s \<Rightarrow> Some (d\<lparr>Todo.Title := s\<rparr>) | _ \<Rightarrow> None)
      else if fst kv = ''description'' then
        (case snd kv of Str s \<Rightarrow> Some (d\<lparr>Todo.Description := s\<rparr>) | _ \<Rightarrow> None)
      else if fst kv = ''completed'' then
        (case snd kv of Boolean b \<Rightarrow> Some (d\<lparr>Todo.Completed := b\<rparr>) | _ \<Rightarrow> None)
      else if fst kv = ''updated_at'' then
        (case snd kv of Time t \<Rightarrow> Some (d\<lparr>UpdatedAt := t\<rparr>) | _ \<Rightarrow> None)
      else None)"

fun apply_set :: "bson_M \<Rightarrow> Todo \<Rightarrow> Todo option" where
  "apply_set [] d = Some d"
| "apply_set (kv # kvs) d =
     (case set_field kv d of None \<Rightarrow> None | Some d' \<Rightarrow> apply_set kvs d')"

definition apply_update :: "bson_M \<Rightarrow> Todo \<Rightarrow> Todo option" where
  "apply_update upd d =
     (case upd of
        [(operator, Doc sets)] \<Rightarrow> if operator = ''$set'' then apply_set sets d else None
      | _ \<Rightarrow> None)"

subsection \<open>What one request meets at run time\<close>

text \<open>
  The readings of the clock (\<open>time_Now rt k\<close> is the \<open>k\<close>-th call of \<open>time.Now()\<close>
  in the request), the token \<open>uuid.New().String()\<close> returns, the identifier the
  driver generates for an insert, and for each driver call whether it returns an error
  of its own (connectivity, the 10 second timeout, decoding).
\<close>

datatype driver_call =
  Call_Find | Call_All | Call_InsertOne | Call_UpdateOne | Call_FindOne | Call_DeleteOne

datatype mongo_error = CommandError | WriteError | ErrNoDocuments

record runtime =
  time_Now :: "nat \<Rightarrow> time"
  uuid_New :: string
  NewObjectID :: ObjectID
  driver_fails :: "driver_call \<Rightarrow> bool"

subsection \<open>Collection operations of the driver\<close>

definition Find :: "runtime \<Rightarrow> Todo list \<Rightarrow> bson_M \<Rightarrow> mongo_error + Todo list" where
  "Find rt coll flt =
     (if driver_fails rt Call_Find then Inl CommandError
      else Inr (filter (matches (marshal_M flt)) coll))"

text \<open>
  \<open>cursor.All\<close> appends the batch to the slice it is given, cut to length 0: with
  no document, a \<open>nil\<close> slice stays \<open>nil\<close>.
\<close>

definition cursor_All :: "runtime \<Rightarrow> Todo list \<Rightarrow> Todo slice \<Rightarrow> mongo_error + Todo slice" where
  "cursor_All rt cursor results =
     (if driver_fails rt Call_All then Inl CommandError
      else Inr (case cursor of
                  [] \<Rightarrow> (case results of NilSlice \<Rightarrow> NilSlice | Slice _ \<Rightarrow> Slice [])
                | _ \<Rightarrow> Slice cursor))"

text \<open>
  \<open>_id\<close> is tagged \<open>omitempty\<close>: a zero \<open>ID\<close> is left out and the driver generates
  one. The store refuses an \<open>_id\<close> it already holds (duplicate key). What is stored
  is the marshalled struct: its two timestamps are cut to their millisecond.
\<close>

definition InsertOne ::
  "runtime \<Rightarrow> Todo list \<Rightarrow> Todo \<Rightarrow> mongo_error + (ObjectID \<times> Todo list)" where
  "InsertOne rt coll doc =
     (let oid = (if ID doc = NilObjectID then NewObjectID rt else ID doc) in
      if driver_fails rt Call_InsertOne then Inl CommandError
      else if oid \<in> set (map ID coll) then Inl WriteError
      else Inr (oid, coll @ [marshal_Todo (doc\<lparr>ID := oid\<rparr>)]))"

fun update_first ::
  "(Todo \<Rightarrow> bool) \<Rightarrow> (Todo \<Rightarrow> Todo option) \<Rightarrow> Todo list \<Rightarrow> (nat \<times> Todo list) option" where
  "update_first p f [] = Some (0, [])"
| "update_first p f (d # ds) =
     (if p d then (case f d of None \<Rightarrow> None | Some d' \<Rightarrow> Some (1, d' # ds))
      else (case update_first p f ds of
              None \<Rightarrow> None
            | Some (n, ds') \<Rightarrow> Some (n, d # ds')))"

text \<open>\<open>UpdateOne\<close> returns \<open>MatchedCount\<close> and the collection after the write.\<close>

definition UpdateOne ::
  "runtime \<Rightarrow> Todo list \<Rightarrow> bson_M \<Rightarrow> bson_M \<Rightarrow> mongo_error + (nat \<times> Todo list)" where
  "UpdateOne rt coll flt upd =
     (if driver_fails rt Call_UpdateOne then Inl CommandError
      else (case update_first (matches (marshal_M flt)) (apply_update (marshal_M upd)) coll of
              None \<Rightarrow> Inl WriteError
            | Some r \<Rightarrow> Inr r))"

definition FindOne :: "runtime \<Rightarrow> Todo list \<Rightarrow> bson_M \<Rightarrow> mongo_error + Todo" where
  "FindOne rt coll flt =
     (if driver_fails rt Call_FindOne then Inl CommandError
      else (case List.find (matches (marshal_M flt)) coll of
              None \<Rightarrow> Inl ErrNoDocuments
            | Some d \<Rightarrow> Inr d))"

fun delete_first :: "(Todo \<Rightarrow> bool) \<Rightarrow> Todo list \<Rightarrow> nat \<times> Todo list" where
  "delete_first p [] = (0, [])"
| "delete_first p (d # ds) =
     (if p d then (1, ds)
      else (case delete_first p ds of (n, ds') \<Rightarrow> (n, d # ds')))"

text \<open>\<open>DeleteOne\<close> returns \<open>DeletedCount\<close> and the collection after the write.\<close>

definition DeleteOne ::
  "runtime \<Rightarrow> Todo list \<Rightarrow> bson_M \<Rightarrow> mongo_error + (nat \<times> Todo list)" where
  "DeleteOne rt coll flt =
     (if driver_fails rt Call_DeleteOne then Inl CommandError
      else Inr (delete_first (matches (marshal_M flt)) coll))"

subsection \<open>Package \<open>database\<close>\<close>

type_synonym database = "string \<Rightarrow> Todo list"

text \<open>
  \<open>database.DB\<close> is the connected database, its collections by name.
  \<open>GetCollection\<close> returns \<open>DB.Collection(collectionName)\<close>, the handle on the
  collection of that name: here the collection's documents. \<open>PutCollection\<close> is the
  database after a write through the handle has left the collection as \<open>coll\<close>.
\<close>

definition GetCollection :: "database \<Rightarrow> string \<Rightarrow> Todo list" where
  "GetCollection db name = db name"

definition PutCollection :: "database \<Rightarrow> string \<Rightarrow> Todo list \<Rightarrow> database" where
  "PutCollection db name coll = db(name := coll)"

section \<open>The request context of gin\<close>

record Cookie =
  Name :: string
  Value :: string
  MaxAge :: int
  Path :: string
  Domain :: string
  Secure :: bool
  HttpOnly :: bool

datatype H =
    H_error string
  | H_error_binding binding_error
  | H_todos "Todo slice"
  | H_todo Todo
  | H_message string
  | H_health

text \<open>
  \<open>Cookies\<close> are the cookies of the request as \<open>net/http\<close> reads them from its
  \<open>Cookie\<close> header (name and value as presented), \<open>Params\<close> the path parameters, \<open>Body\<close> the request body, \<open>Keys\<close> the values set on the context
  (this service stores strings only), \<open>Written\<close> the status and JSON object of
  \<open>c.JSON\<close>, \<open>SetCookies\<close> the \<open>Set-Cookie\<close> headers of the response.
\<close>

record Context =
  Cookies :: "(string \<times> string) list"
  Params :: "(string \<times> string) list"
  Body :: "json option"
  Keys :: "string \<rightharpoonup> string"
  Written :: "(nat \<times> H) option"
  SetCookies :: "Cookie list"

abbreviation StatusOK :: nat where "StatusOK \<equiv> 200"
abbreviation StatusCreated :: nat where "StatusCreated \<equiv> 201"
abbreviation StatusBadRequest :: nat where "StatusBadRequest \<equiv> 400"
abbreviation StatusUnauthorized :: nat where "StatusUnauthorized \<equiv> 401"
abbreviation StatusNotFound :: nat where "StatusNotFound \<equiv> 404"
abbreviation StatusInternalServerError :: nat where "StatusInternalServerError \<equiv> 500"

definition Get :: "Context \<Rightarrow> string \<Rightarrow> string option" where
  "Get c key = Keys c key"

definition Set :: "string \<Rightarrow> string \<Rightarrow> Context \<Rightarrow> Context" where
  "Set key v c = c\<lparr>Keys := (Keys c)(key \<mapsto> v)\<rparr>"

definition Param :: "Context \<Rightarrow> string \<Rightarrow> string" where
  "Param c key = (case map_of (Params c) key of None \<Rightarrow> [] | Some v \<Rightarrow> v)"

text \<open>
  \<open>url.QueryUnescape\<close> turns \<open>%XX\<close> into the byte \<open>XX\<close> and \<open>+\<close> into a space;
  a \<open>%\<close> that two hexadecimal digits do not follow is an error (\<open>None\<close>).
\<close>

fun QueryUnescape :: "string \<Rightarrow> string option" where
  "QueryUnescape [] = Some []"
| "QueryUnescape (c # cs) =
     (if c = CHR ''%'' then
        (case cs of
           a # b # rest \<Rightarrow>
             (case fromHexChar a of
                None \<Rightarrow> None
              | Some x \<Rightarrow>
                  (case fromHexChar b of
                     None \<Rightarrow> None
                   | Some y \<Rightarrow> map_option ((#) (char_of (x * 16 + y))) (QueryUnescape rest)))
         | _ \<Rightarrow> None)
      else if c = CHR ''+'' then map_option ((#) CHR '' '') (QueryUnescape cs)
      else map_option ((#) c) (QueryUnescape cs))"

text \<open>
  \<open>c.Cookie\<close> takes the first cookie of that name; without one it returns the empty
  value and \<open>ErrNoCookie\<close> (the flag). It returns the value URL-unescaped and drops
  the error of the unescaping, whose value is then empty.
\<close>

definition Cookie :: "Context \<Rightarrow> string \<Rightarrow> string \<times> bool" where
  "Cookie c name =
     (case map_of (Cookies c) name of
        None \<Rightarrow> ([], True)
      | Some v \<Rightarrow> ((case QueryUnescape v of None \<Rightarrow> [] | Some val \<Rightarrow> val), False))"

definition JSON :: "nat \<Rightarrow> H \<Rightarrow> Context \<Rightarrow> Context" where
  "JSON code obj c = c\<lparr>Written := Some (code, obj)\<rparr>"

text \<open>
  \<open>c.SetCookie\<close> defaults an empty path to \<open>/\<close> and adds one header. (It writes the
  value through \<open>url.QueryEscape\<close>, which leaves the digits, letters and hyphens of a
  UUID as they are.)
\<close>

definition SetCookie ::
  "string \<Rightarrow> string \<Rightarrow> int \<Rightarrow> string \<Rightarrow> string \<Rightarrow> bool \<Rightarrow> bool \<Rightarrow> Context \<Rightarrow> Context" where
  "SetCookie name v maxAge path domain secure httpOnly c =
     c\<lparr>SetCookies := SetCookies c @
        [\<lparr>Name = name, Value = v, MaxAge = maxAge,
          Path = (if path = [] then ''/'' else path), Domain = domain,
          Secure = secure, HttpOnly = httpOnly\<rparr>]\<rparr>"

definition status :: "Context \<Rightarrow> nat option" where
  "status c = map_option fst (Written c)"

definition payload :: "Context \<Rightarrow> H option" where
  "payload c = map_option snd (Written c)"

section \<open>Package \<open>middleware\<close>\<close>

text \<open>
  \<open>getenv\<close> is the process environment (\<open>os.Getenv\<close>, empty for an unset name);
  \<open>next\<close> is the rest of the handler chain, run by \<open>c.Next()\<close>.
\<close>

definition cookieName :: "(string \<Rightarrow> string) \<Rightarrow> string" where
  "cookieName getenv =
     (if getenv ''COOKIE_NAME'' = [] then ''todo_user_id'' else getenv ''COOKIE_NAME'')"

definition AuthMiddleware ::
  "(string \<Rightarrow> string) \<Rightarrow> runtime \<Rightarrow> (Context \<Rightarrow> 'r) \<Rightarrow> Context \<Rightarrow> 'r" where
  "AuthMiddleware getenv rt next c =
     (let userID = fst (Cookie c (cookieName getenv));
          err = snd (Cookie c (cookieName getenv))
      in if err \<or> userID = [] then
           (let userID' = uuid_New rt;
                c' = SetCookie (cookieName getenv) userID' (24 * 60 * 60) ''/'' [] False True c
            in next (Set ''user_id'' userID' c'))
         else next (Set ''user_id'' userID c))"

section \<open>Package \<open>handlers\<close>\<close>

definition collectionName :: "(string \<Rightarrow> string) \<Rightarrow> string" where
  "collectionName getenv =
     (if getenv ''COLLECTION_NAME'' = [] then ''todos'' else getenv ''COLLECTION_NAME'')"

definition GetTodos ::
  "(string \<Rightarrow> string) \<Rightarrow> runtime \<Rightarrow> Context \<Rightarrow> database \<Rightarrow> Context \<times> database" where
  "GetTodos getenv rt c db =
     (case Get c ''user_id'' of
        None \<Rightarrow> (JSON StatusUnauthorized (H_error ''User not authenticated'') c, db)
      | Some userID \<Rightarrow>
          (let collection = GetCollection db (collectionName getenv);
               flt = [(''user_id'', Str userID)]
           in case Find rt collection flt of
                Inl e \<Rightarrow>
                  (JSON StatusInternalServerError (H_error ''Failed to fetch todos'') c, db)
              | Inr cursor \<Rightarrow>
                  (case cursor_All rt cursor NilSlice of
                     Inl e \<Rightarrow>
                       (JSON StatusInternalServerError (H_error ''Failed to decode todos'') c,
                        db)
                   | Inr todos \<Rightarrow>
                       (let todos' = (if todos = NilSlice then Slice [] else todos)
                        in (JSON StatusOK (H_todos todos') c, db)))))"

definition CreateTodo ::
  "(string \<Rightarrow> string) \<Rightarrow> runtime \<Rightarrow> Context \<Rightarrow> database \<Rightarrow> Context \<times> database" where
  "CreateTodo getenv rt c db =
     (case Get c ''user_id'' of
        None \<Rightarrow> (JSON StatusUnauthorized (H_error ''User not authenticated'') c, db)
      | Some userID \<Rightarrow>
          (case ShouldBindJSON_CreateTodoRequest (Body c) of
             Inl e \<Rightarrow> (JSON StatusBadRequest (H_error_binding e) c, db)
           | Inr req \<Rightarrow>
               (let todo = \<lparr>ID = NilObjectID, UserID = userID,
                            Todo.Title = CreateTodoRequest.Title req,
                            Todo.Description = CreateTodoRequest.Description req,
                            Todo.Completed = False,
                            CreatedAt = time_Now rt 0, UpdatedAt = time_Now rt 1\<rparr>;
                    collection = GetCollection db (collectionName getenv)
                in case InsertOne rt collection todo of
                     Inl e \<Rightarrow>
                       (JSON StatusInternalServerError (H_error ''Failed to create todo'') c,
                        db)
                   | Inr (insertedID, collection') \<Rightarrow>
                       (JSON StatusCreated (H_todo (todo\<lparr>ID := insertedID\<rparr>)) c,
                        PutCollection db (collectionName getenv) collection'))))"

definition UpdateTodo ::
  "(string \<Rightarrow> string) \<Rightarrow> runtime \<Rightarrow> Context \<Rightarrow> database \<Rightarrow> Context \<times> database" where
  "UpdateTodo getenv rt c db =
     (case Get c ''user_id'' of
        None \<Rightarrow> (JSON StatusUnauthorized (H_error ''User not authenticated'') c, db)
      | Some userID \<Rightarrow>
          (case ObjectIDFromHex (Param c ''id'') of
             None \<Rightarrow> (JSON StatusBadRequest (H_error ''Invalid todo ID'') c, db)
           | Some objectID \<Rightarrow>
               (case ShouldBindJSON_UpdateTodoRequest (Body c) of
                  Inl e \<Rightarrow> (JSON StatusBadRequest (H_error_binding e) c, db)
                | Inr req \<Rightarrow>
                    (let collection = GetCollection db (collectionName getenv);
                         set0 = [(''updated_at'', Time (time_Now rt 0))];
                         set1 = (case UpdateTodoRequest.Title req of
                                   None \<Rightarrow> set0
                                 | Some t \<Rightarrow> AList.update ''title'' (Str t) set0);
                         set2 = (case UpdateTodoRequest.Description req of
                                   None \<Rightarrow> set1
                                 | Some d \<Rightarrow> AList.update ''description'' (Str d) set1);
                         set3 = (case UpdateTodoRequest.Completed req of
                                   None \<Rightarrow> set2
                                 | Some b \<Rightarrow> AList.update ''completed'' (Boolean b) set2);
                         upd = [(''$set'', Doc set3)];
                         flt = [(''_id'', OID objectID), (''user_id'', Str userID)]
                     in case UpdateOne rt collection flt upd of
                          Inl e \<Rightarrow>
                            (JSON StatusInternalServerError
                               (H_error ''Failed to update todo'') c, db)
                        | Inr (matchedCount, collection') \<Rightarrow>
                            (let db' = PutCollection db (collectionName getenv) collection'
                             in if matchedCount = 0 then
                                  (JSON StatusNotFound (H_error ''Todo not found'') c, db')
                                else
                                  (case FindOne rt collection' flt of
                                     Inl e \<Rightarrow>
                                       (JSON StatusInternalServerError
                                          (H_error ''Failed to fetch updated todo'') c, db')
                                   | Inr updatedTodo \<Rightarrow>
                                       (JSON StatusOK (H_todo updatedTodo) c, db')))))))"

definition DeleteTodo ::
  "(string \<Rightarrow> string) \<Rightarrow> runtime \<Rightarrow> Context \<Rightarrow> database \<Rightarrow> Context \<times> database" where
  "DeleteTodo getenv rt c db =
     (case Get c ''user_id'' of
        None \<Rightarrow> (JSON StatusUnauthorized (H_error ''User not authenticated'') c, db)
      | Some userID \<Rightarrow>
          (case ObjectIDFromHex (Param c ''id'') of
             None \<Rightarrow> (JSON StatusBadRequest (H_error ''Invalid todo ID'') c, db)
           | Some objectID \<Rightarrow>
               (let collection = GetCollection db (collectionName getenv);
                    flt = [(''_id'', OID objectID), (''user_id'', Str userID)]
                in case DeleteOne rt collection flt of
                     Inl e \<Rightarrow>
                       (JSON StatusInternalServerError (H_error ''Failed to delete todo'') c,
                        db)
                   | Inr (deletedCount, collection') \<Rightarrow>
                       (let db' = PutCollection db (collectionName getenv) collection'
                        in if deletedCount = 0 then
                             (JSON StatusNotFound (H_error ''Todo not found'') c, db')
                           else
                             (JSON StatusOK (H_message ''Todo deleted successfully'') c,
                              db')))))"

section \<open>The router of \<open>main\<close>\<close>

text \<open>
  Every route runs behind \<open>AuthMiddleware\<close>; the four todo routes and the health
  check are the routes of \<open>main\<close>.
\<close>

datatype route = GET_todos | POST_todos | PUT_todos_id | DELETE_todos_id | GET_health

definition handler ::
  "route \<Rightarrow> (string \<Rightarrow> string) \<Rightarrow> runtime \<Rightarrow> Context \<Rightarrow> database \<Rightarrow> Context \<times> database" where
  "handler r getenv rt c db =
     (case r of
        GET_todos \<Rightarrow> GetTodos getenv rt c db
      | POST_todos \<Rightarrow> CreateTodo getenv rt c db
      | PUT_todos_id \<Rightarrow> UpdateTodo getenv rt c db
      | DELETE_todos_id \<Rightarrow> DeleteTodo getenv rt c db
      | GET_health \<Rightarrow> (JSON 200 H_health c, db))"

definition serve ::
  "route \<Rightarrow> (string \<Rightarrow> string) \<Rightarrow> runtime \<Rightarrow> Context \<Rightarrow> database \<Rightarrow> Context \<times> database" where
  "serve r getenv rt c db = AuthMiddleware getenv rt (\<lambda>c'. handler r getenv rt c' db) c"

section \<open>Example requests\<close>

text \<open>
  Concrete inputs on which the handlers are evaluated below: a process environment
  with no variable set, several runs of the clock and the generators, two callers
  (\<open>alice\<close> and \<open>bob\<close>) and their todos.
\<close>

definition example_getenv :: "string \<Rightarrow> string" where
  "example_getenv name = []"

text \<open>
  A run that reads the clock at 5 ms and, 250 ns later, again; one that does so at
  7 ms; one whose two readings lie in different milliseconds.
\<close>

definition example_runtime :: runtime where
  "example_runtime =
     \<lparr>time_Now = (\<lambda>k. 5000000 + 250 * int k),
      uuid_New = ''550e8400-e29b-41d4-a716-446655440000'',
      NewObjectID = [80, 127, 31, 119, 188, 248, 108, 215, 153, 67, 144, 17],
      driver_fails = (\<lambda>call. False)\<rparr>"

definition second_runtime :: runtime where
  "second_runtime =
     \<lparr>time_Now = (\<lambda>k. 7000000 + 250 * int k),
      uuid_New = ''6ba7b810-9dad-11d1-80b4-00c04fd430c8'',
      NewObjectID = [80, 127, 31, 119, 188, 248, 108, 215, 153, 67, 144, 18],
      driver_fails = (\<lambda>call. False)\<rparr>"

definition boundary_runtime :: runtime where
  "boundary_runtime =
     \<lparr>time_Now = (\<lambda>k. 5999900 + 200 * int k),
      uuid_New = ''6ba7b812-9dad-11d1-80b4-00c04fd430c8'',
      NewObjectID = [80, 127, 31, 119, 188, 248, 108, 215, 153, 67, 144, 21],
      driver_fails = (\<lambda>call. False)\<rparr>"

text \<open>
  A run whose first clock reading, 5.0009 ms, is later than 5 ms and in the same
  millisecond; a run that reads the clock after 9 ms; a run in which every driver call
  returns an error.
\<close>

definition same_millisecond_runtime :: runtime where
  "same_millisecond_runtime =
     \<lparr>time_Now = (\<lambda>k. 5000900 + int k),
      uuid_New = ''6ba7b810-9dad-11d1-80b4-00c04fd430c8'',
      NewObjectID = [80, 127, 31, 119, 188, 248, 108, 215, 153, 67, 144, 19],
      driver_fails = (\<lambda>call. False)\<rparr>"

definition later_runtime :: runtime where
  "later_runtime =
     \<lparr>time_Now = (\<lambda>k. 9000300 + int k),
      uuid_New = ''6ba7b811-9dad-11d1-80b4-00c04fd430c8'',
      NewObjectID = [80, 127, 31, 119, 188, 248, 108, 215, 153, 67, 144, 20],
      driver_fails = (\<lambda>call. False)\<rparr>"

definition failing_runtime :: runtime where
  "failing_runtime =
     \<lparr>time_Now = (\<lambda>k. 9000300 + int k),
      uuid_New = ''6ba7b813-9dad-11d1-80b4-00c04fd430c8'',
      NewObjectID = [80, 127, 31, 119, 188, 248, 108, 215, 153, 67, 144, 22],
      driver_fails = (\<lambda>call. True)\<rparr>"

text \<open>The stored todos of alice and of bob.\<close>

definition milk :: Todo where
  "milk = \<lparr>ID = [80, 127, 31, 119, 188, 248, 108, 215, 153, 67, 144, 17],
           UserID = ''alice'', Todo.Title = ''Buy milk'', Todo.Description = [],
           Todo.Completed = False, CreatedAt = 5000000, UpdatedAt = 5000000\<rparr>"

definition bread :: Todo where
  "bread = \<lparr>ID = [80, 127, 31, 119, 188, 248, 108, 215, 153, 67, 144, 18],
            UserID = ''bob'', Todo.Title = ''Bake bread'', Todo.Description = ''rye'',
            Todo.Completed = False, CreatedAt = 7000000, UpdatedAt = 7000000\<rparr>"

definition empty_database :: database where
  "empty_database name = []"

definition one_todo :: database where
  "one_todo = PutCollection empty_database ''todos'' [milk]"

definition two_todos :: database where
  "two_todos = PutCollection empty_database ''todos'' [milk, bread]"

text \<open>
  A request with no cookie, one that presents the cookie \<open>alice\<close>, and one that
  presents the identity cookie with a given value.
\<close>

definition first_request :: Context where
  "first_request =
     \<lparr>Cookies = [], Params = [], Body = None, Keys = Map.empty, Written = None,
      SetCookies = []\<rparr>"

definition returning_request :: Context where
  "returning_request =
     \<lparr>Cookies = [(''todo_user_id'', ''alice'')], Params = [], Body = None,
      Keys = Map.empty, Written = None, SetCookies = []\<rparr>"

definition presenting :: "string \<Rightarrow> Context" where
  "presenting v =
     \<lparr>Cookies = [(''todo_user_id'', v)], Params = [], Body = None,
      Keys = Map.empty, Written = None, SetCookies = []\<rparr>"

text \<open>
  A request as a handler receives it behind the middleware: the caller's identity
  under \<open>user_id\<close>, the path parameter \<open>id\<close> and the body.
\<close>

definition request :: "string \<Rightarrow> string \<Rightarrow> json option \<Rightarrow> Context" where
  "request user ident b =
     \<lparr>Cookies = [(''todo_user_id'', user)], Params = [(''id'', ident)], Body = b,
      Keys = [''user_id'' \<mapsto> user], Written = None, SetCookies = []\<rparr>"

section \<open>Properties\<close>

lemmas example_defs =
  example_getenv_def example_runtime_def second_runtime_def boundary_runtime_def
  same_millisecond_runtime_def later_runtime_def failing_runtime_def
  empty_database_def one_todo_def two_todos_def milk_def bread_def request_def
  first_request_def returning_request_def presenting_def
  collectionName_def cookieName_def GetCollection_def PutCollection_def Get_def Param_def

lemmas binding_defs =
  ShouldBindJSON_CreateTodoRequest_def Unmarshal_CreateTodoRequest_def
  ShouldBindJSON_UpdateTodoRequest_def Unmarshal_UpdateTodoRequest_def
  toLower_def into_string_def into_string_ptr_def into_bool_ptr_def

lemmas driver_defs =
  Find_def cursor_All_def InsertOne_def UpdateOne_def FindOne_def DeleteOne_def
  matches_def document_field_def apply_update_def set_field_def NilObjectID_def
  ObjectIDFromHex_def fromHexChar_def marshal_M_def marshal_Todo_def persisted_def
  NewDateTimeFromTime_def DateTime_Time_def

subsection \<open>The context\<close>

lemma status_JSON [simp]: "status (JSON code obj c) = Some code"
  by (simp add: status_def JSON_def)

lemma payload_JSON [simp]: "payload (JSON code obj c) = Some obj"
  by (simp add: payload_def JSON_def)

lemma Get_Set [simp]: "Get (Set key v c) key = Some v"
  by (simp add: Get_def Set_def)

lemma PutCollection_same [simp]:
  "PutCollection db name (GetCollection db name) = db"
  by (simp add: PutCollection_def GetCollection_def)

lemma GetCollection_PutCollection [simp]:
  "GetCollection (PutCollection db name coll) name = coll"
  by (simp add: PutCollection_def GetCollection_def)

subsection \<open>Filters\<close>

lemma matches_owner: "matches [(''user_id'', Str u)] d = (UserID d = u)"
  by (simp add: matches_def document_field_def)

lemma matches_id_owner:
  "matches [(''_id'', OID i), (''user_id'', Str u)] d = (ID d = i \<and> UserID d = u)"
  by (simp add: matches_def document_field_def)

lemma matches_id_owner_fun:
  "matches [(''_id'', OID i), (''user_id'', Str u)] = (\<lambda>d. ID d = i \<and> UserID d = u)"
  by (rule ext) (rule matches_id_owner)

subsection \<open>The middleware\<close>


lemma AuthMiddleware_cases:
  "AuthMiddleware getenv rt next c =
     (case map_of (Cookies c) (cookieName getenv) of
        None \<Rightarrow>
          next (Set ''user_id'' (uuid_New rt)
                 (SetCookie (cookieName getenv) (uuid_New rt) 86400 ''/'' [] False True c))
      | Some v \<Rightarrow>
          (case QueryUnescape v of
             None \<Rightarrow>
               next (Set ''user_id'' (uuid_New rt)
                      (SetCookie (cookieName getenv) (uuid_New rt) 86400 ''/'' [] False True c))
           | Some val \<Rightarrow>
               if val = [] then
                 next (Set ''user_id'' (uuid_New rt)
                        (SetCookie (cookieName getenv) (uuid_New rt) 86400 ''/'' [] False True
                           c))
               else next (Set ''user_id'' val c)))"
  by (simp add: AuthMiddleware_def Cookie_def Let_def split: option.split)

lemma AuthMiddleware_sets_user_id:
  "\<exists>c'. AuthMiddleware getenv rt next c = next c' \<and> Get c' ''user_id'' \<noteq> None"
  by (auto simp: AuthMiddleware_cases split: option.split)

text \<open>
  Claim C8. When the identity cookie is missing or empty, the middleware takes the
  token of \<open>uuid.New()\<close>, adds one \<open>Set-Cookie\<close> header with that value, path
  \<open>/\<close>, max-age 86400, HTTP-only and not secure, and stores the token under
  \<open>user_id\<close>. In every case it runs the rest of the chain (it never aborts) on a
  context that holds the resolved identity under \<open>user_id\<close>, with nothing written to
  the response body.
\<close>

theorem AuthMiddleware_new_identity:
  "(map_of (Cookies c) (cookieName getenv) = None \<or>
    map_of (Cookies c) (cookieName getenv) = Some [] \<longrightarrow>
      AuthMiddleware getenv rt next c =
        next (c\<lparr>SetCookies := SetCookies c @
                  [\<lparr>Name = cookieName getenv, Value = uuid_New rt, MaxAge = 86400,
                    Path = ''/'', Domain = [], Secure = False, HttpOnly = True\<rparr>],
                Keys := (Keys c)(''user_id'' \<mapsto> uuid_New rt)\<rparr>)) \<and>
   (\<exists>c'. AuthMiddleware getenv rt next c = next c' \<and>
         Keys c' ''user_id'' =
           Some (case map_of (Cookies c) (cookieName getenv) of
                   None \<Rightarrow> uuid_New rt
                 | Some v \<Rightarrow>
                     (case QueryUnescape v of
                        None \<Rightarrow> uuid_New rt
                      | Some val \<Rightarrow> if val = [] then uuid_New rt else val)) \<and>
         Written c' = Written c)"
  by (auto simp: AuthMiddleware_cases Set_def SetCookie_def split: option.split)

theorem AuthMiddleware_new_identity_witness:
  "map_of (Cookies first_request) (cookieName example_getenv) = None \<and>
   AuthMiddleware example_getenv example_runtime (\<lambda>c. c) first_request =
     \<lparr>Cookies = [], Params = [], Body = None,
      Keys = [''user_id'' \<mapsto> ''550e8400-e29b-41d4-a716-446655440000''],
      Written = None,
      SetCookies =
        [\<lparr>Name = ''todo_user_id'', Value = ''550e8400-e29b-41d4-a716-446655440000'',
          MaxAge = 86400, Path = ''/'', Domain = [], Secure = False, HttpOnly = True\<rparr>]\<rparr>"
  using AuthMiddleware_new_identity
    [of first_request example_getenv example_runtime "\<lambda>c. c"]
  by (simp add: example_defs)




subsection \<open>No handler answers 401 behind the middleware\<close>

lemma GetTodos_not_401:
  "Get c ''user_id'' = Some u \<Longrightarrow> status (fst (GetTodos getenv rt c db)) \<noteq> Some 401"
  by (simp add: GetTodos_def Let_def split: sum.split)

lemma CreateTodo_not_401:
  "Get c ''user_id'' = Some u \<Longrightarrow> status (fst (CreateTodo getenv rt c db)) \<noteq> Some 401"
  by (simp add: CreateTodo_def Let_def split: sum.split prod.split)

lemma UpdateTodo_not_401:
  "Get c ''user_id'' = Some u \<Longrightarrow> status (fst (UpdateTodo getenv rt c db)) \<noteq> Some 401"
  by (simp add: UpdateTodo_def Let_def split: sum.split prod.split option.split)

lemma DeleteTodo_not_401:
  "Get c ''user_id'' = Some u \<Longrightarrow> status (fst (DeleteTodo getenv rt c db)) \<noteq> Some 401"
  by (simp add: DeleteTodo_def Let_def split: sum.split prod.split option.split)

lemma handler_not_401:
  "Get c ''user_id'' = Some u \<Longrightarrow> status (fst (handler r getenv rt c db)) \<noteq> Some 401"
  by (cases r)
    (simp_all add: handler_def GetTodos_not_401 CreateTodo_not_401 UpdateTodo_not_401
      DeleteTodo_not_401)

text \<open>
  Claim C9. On every route, the handler runs on a context in which the middleware has
  set \<open>user_id\<close>, and the response is never 401: the \<open>Unauthenticated\<close> branch of the
  four todo handlers is not taken behind the middleware.
\<close>

theorem Unauthenticated_unreachable:
  "status (fst (serve r getenv rt c db)) \<noteq> Some StatusUnauthorized \<and>
   (\<exists>c' u. serve r getenv rt c db = handler r getenv rt c' db \<and>
           Get c' ''user_id'' = Some u)"
proof -
  obtain c' where run: "serve r getenv rt c db = handler r getenv rt c' db"
    and set: "Get c' ''user_id'' \<noteq> None"
    unfolding serve_def
    using AuthMiddleware_sets_user_id [of getenv rt "\<lambda>c'. handler r getenv rt c' db" c]
    by blast
  from set obtain u where u: "Get c' ''user_id'' = Some u" by blast
  from handler_not_401 [OF u] run u show ?thesis by metis
qed

theorem Unauthenticated_unreachable_witness:
  "status (fst (serve GET_todos example_getenv example_runtime first_request empty_database))
     \<noteq> Some StatusUnauthorized \<and>
   status (fst (serve DELETE_todos_id example_getenv example_runtime first_request
     empty_database)) = Some StatusBadRequest"
  using Unauthenticated_unreachable
    [of GET_todos example_getenv example_runtime first_request empty_database]
  by (simp add: serve_def handler_def AuthMiddleware_def Cookie_def DeleteTodo_def Set_def
      SetCookie_def Let_def example_defs driver_defs)

subsection \<open>Key folding\<close>

text \<open>
  The key \<open>DE\<close>, U+017F, \<open>cription\<close> (the long s as the bytes \<open>C5 BF\<close>) folds to
  the tag \<open>description\<close>, and \<open>Title\<close> to \<open>title\<close>; a key with another non-ASCII
  rune (here U+00E9, the bytes \<open>C3 A9\<close>) folds to no tag.
\<close>

lemma foldKey_examples:
  "foldKey (''DE'' @ [char_of (197 :: nat), char_of (191 :: nat)] @ ''cription'') =
     ''description''"
  "foldKey ''Title'' = ''title''"
  "foldKey (''titl'' @ [char_of (195 :: nat), char_of (169 :: nat)]) \<noteq> ''title''"
  by (simp_all add: toLower_def char_of_def bit_Suc_0_iff)

subsection \<open>Listing\<close>

lemma GetTodos_authenticated:
  assumes "Get c ''user_id'' = Some u"
  shows "GetTodos getenv rt c db =
     (if driver_fails rt Call_Find then
        (JSON StatusInternalServerError (H_error ''Failed to fetch todos'') c, db)
      else if driver_fails rt Call_All then
        (JSON StatusInternalServerError (H_error ''Failed to decode todos'') c, db)
      else
        (JSON StatusOK
           (H_todos (Slice (filter (\<lambda>d. UserID d = u)
              (GetCollection db (collectionName getenv))))) c, db))"
proof -
  have flt: "matches [(''user_id'', Str u)] = (\<lambda>d. UserID d = u)"
    by (rule ext) (rule matches_owner)
  show ?thesis
    using assms
    by (cases "filter (\<lambda>d. UserID d = u) (GetCollection db (collectionName getenv))")
      (simp_all add: GetTodos_def Find_def cursor_All_def Let_def marshal_M_def flt)
qed

lemma GetTodos_never_null:
  "payload (fst (GetTodos getenv rt c db)) \<noteq> Some (H_todos NilSlice)"
  by (simp add: GetTodos_def Let_def split: option.split sum.split)

subsection \<open>Creation\<close>

lemma CreateTodo_authenticated:
  assumes "Get c ''user_id'' = Some u"
  shows "CreateTodo getenv rt c db =
     (case ShouldBindJSON_CreateTodoRequest (Body c) of
        Inl e \<Rightarrow> (JSON StatusBadRequest (H_error_binding e) c, db)
      | Inr req \<Rightarrow>
          if driver_fails rt Call_InsertOne \<or>
             NewObjectID rt \<in> set (map ID (GetCollection db (collectionName getenv)))
          then (JSON StatusInternalServerError (H_error ''Failed to create todo'') c, db)
          else
            (let todo = \<lparr>ID = NewObjectID rt, UserID = u,
                         Todo.Title = CreateTodoRequest.Title req,
                         Todo.Description = CreateTodoRequest.Description req,
                         Todo.Completed = False,
                         CreatedAt = time_Now rt 0, UpdatedAt = time_Now rt 1\<rparr>
             in (JSON StatusCreated (H_todo todo) c,
                 PutCollection db (collectionName getenv)
                   (GetCollection db (collectionName getenv) @ [marshal_Todo todo]))))"
  using assms
  by (simp add: CreateTodo_def InsertOne_def Let_def marshal_Todo_def split: sum.split)

lemma CreateTodo_payload:
  assumes "Get c ''user_id'' = Some u"
    and "payload (fst (CreateTodo getenv rt c db)) = Some (H_todo t)"
  shows "UserID t = u \<and> CreatedAt t = time_Now rt 0 \<and> UpdatedAt t = time_Now rt 1 \<and>
         GetCollection (snd (CreateTodo getenv rt c db)) (collectionName getenv) =
           GetCollection db (collectionName getenv) @ [marshal_Todo t]"
  using assms(2) unfolding CreateTodo_authenticated [OF assms(1)]
  by (auto simp: Let_def split: sum.splits if_splits)



text \<open>
  Claim C2, as the code has it. For a caller with identity \<open>u\<close>, the response is 200
  with exactly the stored todos whose owner is \<open>u\<close>, in stored order, as a sequence,
  unless one of the two driver calls of the listing returns an error: then it is 500
  (\<open>Find\<close> first, \<open>cursor.All\<close> next). The listing never changes the database, and
  the sequence is never the \<open>nil\<close> slice (JSON \<open>null\<close>). Hence a todo that a create
  under another identity \<open>a\<close> returned is never in the list of \<open>u\<close>, neither as
  returned nor as stored, whatever the database holds.
\<close>

theorem GetTodos_owner_scoped:
  assumes "Get c ''user_id'' = Some u"
  shows "(driver_fails rt Call_Find \<longrightarrow>
            GetTodos getenv rt c db =
              (JSON StatusInternalServerError (H_error ''Failed to fetch todos'') c, db)) \<and>
         (\<not> driver_fails rt Call_Find \<and> driver_fails rt Call_All \<longrightarrow>
            GetTodos getenv rt c db =
              (JSON StatusInternalServerError (H_error ''Failed to decode todos'') c, db)) \<and>
         (\<not> driver_fails rt Call_Find \<and> \<not> driver_fails rt Call_All \<longrightarrow>
            GetTodos getenv rt c db =
              (JSON StatusOK
                 (H_todos (Slice (filter (\<lambda>d. UserID d = u)
                    (GetCollection db (collectionName getenv))))) c, db)) \<and>
         payload (fst (GetTodos getenv rt c db)) \<noteq> Some (H_todos NilSlice) \<and>
         (\<forall>a getenv' rt' c' db' t.
            Get c' ''user_id'' = Some a \<and> a \<noteq> u \<and>
            payload (fst (CreateTodo getenv' rt' c' db')) = Some (H_todo t) \<longrightarrow>
            t \<notin> set (filter (\<lambda>d. UserID d = u) (GetCollection db (collectionName getenv))) \<and>
            marshal_Todo t \<notin>
              set (filter (\<lambda>d. UserID d = u) (GetCollection db (collectionName getenv))))"
proof (intro conjI allI impI)
  show "GetTodos getenv rt c db =
      (JSON StatusInternalServerError (H_error ''Failed to fetch todos'') c, db)"
    if "driver_fails rt Call_Find"
    using that by (simp add: GetTodos_authenticated [OF assms])
  show "GetTodos getenv rt c db =
      (JSON StatusInternalServerError (H_error ''Failed to decode todos'') c, db)"
    if "\<not> driver_fails rt Call_Find \<and> driver_fails rt Call_All"
    using that by (simp add: GetTodos_authenticated [OF assms])
  show "GetTodos getenv rt c db =
      (JSON StatusOK
         (H_todos (Slice (filter (\<lambda>d. UserID d = u)
            (GetCollection db (collectionName getenv))))) c, db)"
    if "\<not> driver_fails rt Call_Find \<and> \<not> driver_fails rt Call_All"
    using that by (simp add: GetTodos_authenticated [OF assms])
  show "payload (fst (GetTodos getenv rt c db)) \<noteq> Some (H_todos NilSlice)"
    by (rule GetTodos_never_null)
next
  fix a getenv' rt' c' db' t
  assume created: "Get c' ''user_id'' = Some a \<and> a \<noteq> u \<and>
            payload (fst (CreateTodo getenv' rt' c' db')) = Some (H_todo t)"
  then have owner: "UserID t = a" using CreateTodo_payload by blast
  with created show
    "t \<notin> set (filter (\<lambda>d. UserID d = u) (GetCollection db (collectionName getenv)))"
    by simp
  from owner created show
    "marshal_Todo t \<notin>
       set (filter (\<lambda>d. UserID d = u) (GetCollection db (collectionName getenv)))"
    by (simp add: marshal_Todo_def)
qed

theorem GetTodos_owner_scoped_witness:
  "Get (request ''alice'' [] None) ''user_id'' = Some ''alice'' \<and>
   \<not> driver_fails example_runtime Call_Find \<and>
   \<not> driver_fails example_runtime Call_All \<and>
   driver_fails failing_runtime Call_Find \<and>
   Get (request ''bob'' [] (Some (JObject [(''title'', JString ''Bake bread''),
     (''description'', JString ''rye'')]))) ''user_id'' = Some ''bob'' \<and>
   ''bob'' \<noteq> ''alice'' \<and>
   CreateTodo example_getenv second_runtime
     (request ''bob'' [] (Some (JObject [(''title'', JString ''Bake bread''),
        (''description'', JString ''rye'')]))) one_todo =
     (JSON StatusCreated (H_todo (bread\<lparr>UpdatedAt := 7000250\<rparr>))
        (request ''bob'' [] (Some (JObject [(''title'', JString ''Bake bread''),
           (''description'', JString ''rye'')]))), two_todos) \<and>
   marshal_Todo (bread\<lparr>UpdatedAt := 7000250\<rparr>) = bread \<and>
   GetTodos example_getenv example_runtime (request ''alice'' [] None) two_todos =
     (JSON StatusOK (H_todos (Slice [milk])) (request ''alice'' [] None), two_todos) \<and>
   GetTodos example_getenv example_runtime (request ''carol'' [] None) two_todos =
     (JSON StatusOK (H_todos (Slice [])) (request ''carol'' [] None), two_todos) \<and>
   GetTodos example_getenv failing_runtime (request ''alice'' [] None) two_todos =
     (JSON StatusInternalServerError (H_error ''Failed to fetch todos'')
        (request ''alice'' [] None), two_todos) \<and>
   bread \<notin> set [milk] \<and> bread\<lparr>UpdatedAt := 7000250\<rparr> \<notin> set [milk]"
proof -
  have alice: "Get (request ''alice'' [] None) ''user_id'' = Some ''alice''"
    and carol: "Get (request ''carol'' [] None) ''user_id'' = Some ''carol''"
    and find: "\<not> driver_fails example_runtime Call_Find"
    and all: "\<not> driver_fails example_runtime Call_All"
    and down: "driver_fails failing_runtime Call_Find"
    by (simp_all add: example_defs)
  have created: "CreateTodo example_getenv second_runtime
     (request ''bob'' [] (Some (JObject [(''title'', JString ''Bake bread''),
        (''description'', JString ''rye'')]))) one_todo =
     (JSON StatusCreated (H_todo (bread\<lparr>UpdatedAt := 7000250\<rparr>))
        (request ''bob'' [] (Some (JObject [(''title'', JString ''Bake bread''),
           (''description'', JString ''rye'')]))), two_todos)"
    by (simp add: CreateTodo_def Let_def example_defs binding_defs driver_defs)
  have stored: "marshal_Todo (bread\<lparr>UpdatedAt := 7000250\<rparr>) = bread"
    by (simp add: example_defs driver_defs)
  show ?thesis
    using created stored down
      GetTodos_owner_scoped [OF alice, of example_runtime example_getenv two_todos]
      GetTodos_owner_scoped [OF carol, of example_runtime example_getenv two_todos]
      GetTodos_owner_scoped [OF alice, of failing_runtime example_getenv two_todos]
    by (simp add: example_defs)
qed

text \<open>
  Against claim C2 as stated: a list request of alice during which \<open>Find\<close> returns an
  error is answered 500, not 200.
\<close>

theorem GetTodos_driver_error:
  "Get (request ''alice'' [] None) ''user_id'' = Some ''alice'' \<and>
   GetTodos example_getenv failing_runtime (request ''alice'' [] None) two_todos =
     (JSON StatusInternalServerError (H_error ''Failed to fetch todos'')
        (request ''alice'' [] None), two_todos) \<and>
   status (fst (GetTodos example_getenv failing_runtime (request ''alice'' [] None)
     two_todos)) \<noteq> Some StatusOK"
  by (simp add: GetTodos_def Let_def example_defs driver_defs)







lemma AuthMiddleware_keeps_body:
  "\<exists>c' u. AuthMiddleware getenv rt next c = next c' \<and> Get c' ''user_id'' = Some u \<and>
          Body c' = Body c"
  by (auto simp: AuthMiddleware_cases Set_def SetCookie_def Get_def split: option.split)

lemma CreateTodo_rejects:
  assumes "Get c ''user_id'' = Some u"
    and "Body c = None \<or>
         (\<exists>j. Body c = Some j \<and> Unmarshal_CreateTodoRequest j = None) \<or>
         (\<exists>j r. Body c = Some j \<and> Unmarshal_CreateTodoRequest j = Some r \<and>
                CreateTodoRequest.Title r = [])"
  shows "status (fst (CreateTodo getenv rt c db)) = Some StatusBadRequest \<and>
         snd (CreateTodo getenv rt c db) = db"
  using assms(2)
  by (auto simp: CreateTodo_authenticated [OF assms(1)] ShouldBindJSON_CreateTodoRequest_def)

text \<open>
  Claim C7. For a create request whose body holds no JSON value, or a value that does
  not decode into the request struct, or one whose decoded title is empty (missing or
  given as empty), the response is 400 and the database is unchanged, whatever the
  driver would have done: both for the handler run on any context with a resolved
  identity, and for the route behind the middleware on any context at all.
\<close>

theorem CreateTodo_invalid_input:
  assumes "Body c = None \<or>
         (\<exists>j. Body c = Some j \<and> Unmarshal_CreateTodoRequest j = None) \<or>
         (\<exists>j r. Body c = Some j \<and> Unmarshal_CreateTodoRequest j = Some r \<and>
                CreateTodoRequest.Title r = [])"
  shows "(\<forall>u. Get c ''user_id'' = Some u \<longrightarrow>
            status (fst (CreateTodo getenv rt c db)) = Some StatusBadRequest \<and>
            snd (CreateTodo getenv rt c db) = db) \<and>
         status (fst (serve POST_todos getenv rt c db)) = Some StatusBadRequest \<and>
         snd (serve POST_todos getenv rt c db) = db"
proof -
  obtain c' u where run: "serve POST_todos getenv rt c db = CreateTodo getenv rt c' db"
    and caller: "Get c' ''user_id'' = Some u" and body: "Body c' = Body c"
    unfolding serve_def
    using AuthMiddleware_keeps_body [of getenv rt "\<lambda>c'. handler POST_todos getenv rt c' db" c]
    by (auto simp: handler_def)
  from assms body have "Body c' = None \<or>
         (\<exists>j. Body c' = Some j \<and> Unmarshal_CreateTodoRequest j = None) \<or>
         (\<exists>j r. Body c' = Some j \<and> Unmarshal_CreateTodoRequest j = Some r \<and>
                CreateTodoRequest.Title r = [])"
    by simp
  from CreateTodo_rejects [OF caller this] run
  have "status (fst (serve POST_todos getenv rt c db)) = Some StatusBadRequest \<and>
         snd (serve POST_todos getenv rt c db) = db"
    by simp
  moreover have "\<forall>u. Get c ''user_id'' = Some u \<longrightarrow>
            status (fst (CreateTodo getenv rt c db)) = Some StatusBadRequest \<and>
            snd (CreateTodo getenv rt c db) = db"
    using CreateTodo_rejects assms by blast
  ultimately show ?thesis by blast
qed

theorem CreateTodo_invalid_input_witness:
  "Get (request ''alice'' [] (Some (JObject [(''description'', JString ''rye'')])))
     ''user_id'' = Some ''alice'' \<and>
   Body (request ''alice'' [] (Some (JObject [(''description'', JString ''rye'')]))) =
     Some (JObject [(''description'', JString ''rye'')]) \<and>
   Unmarshal_CreateTodoRequest (JObject [(''description'', JString ''rye'')]) =
     Some \<lparr>CreateTodoRequest.Title = [], CreateTodoRequest.Description = ''rye''\<rparr> \<and>
   status (fst (CreateTodo example_getenv example_runtime
     (request ''alice'' [] (Some (JObject [(''description'', JString ''rye'')])))
     one_todo)) = Some StatusBadRequest \<and>
   snd (CreateTodo example_getenv example_runtime
     (request ''alice'' [] (Some (JObject [(''description'', JString ''rye'')])))
     one_todo) = one_todo \<and>
   Body first_request = None \<and>
   status (fst (serve POST_todos example_getenv example_runtime first_request one_todo)) =
     Some StatusBadRequest \<and>
   snd (serve POST_todos example_getenv example_runtime first_request one_todo) = one_todo \<and>
   status (fst (CreateTodo example_getenv example_runtime
     (request ''alice'' [] (Some (JObject [(''title'', JNumber 7)]))) one_todo)) =
     Some StatusBadRequest"
proof -
  let ?j = "JObject [(''description'', JString ''rye'')]"
  let ?c = "request ''alice'' [] (Some ?j)"
  have caller: "Get ?c ''user_id'' = Some ''alice''"
    and body: "Body ?c = Some ?j"
    and no_body: "Body first_request = None"
    by (simp_all add: example_defs)
  have decoded: "Unmarshal_CreateTodoRequest ?j =
      Some \<lparr>CreateTodoRequest.Title = [], CreateTodoRequest.Description = ''rye''\<rparr>"
    by (simp add: binding_defs)
  have untitled: "Body ?c = None \<or>
      (\<exists>j. Body ?c = Some j \<and> Unmarshal_CreateTodoRequest j = None) \<or>
      (\<exists>j r. Body ?c = Some j \<and> Unmarshal_CreateTodoRequest j = Some r \<and>
             CreateTodoRequest.Title r = [])"
    using body decoded by simp
  have absent: "Body first_request = None \<or>
      (\<exists>j. Body first_request = Some j \<and> Unmarshal_CreateTodoRequest j = None) \<or>
      (\<exists>j r. Body first_request = Some j \<and> Unmarshal_CreateTodoRequest j = Some r \<and>
             CreateTodoRequest.Title r = [])"
    using no_body by simp
  have mistyped: "status (fst (CreateTodo example_getenv example_runtime
      (request ''alice'' [] (Some (JObject [(''title'', JNumber 7)]))) one_todo)) =
      Some StatusBadRequest"
    by (simp add: CreateTodo_def example_defs binding_defs)
  from CreateTodo_invalid_input [OF untitled, of example_getenv example_runtime one_todo]
    CreateTodo_invalid_input [OF absent, of example_getenv example_runtime one_todo]
    caller body decoded no_body mistyped
  show ?thesis by blast
qed

subsection \<open>Deleting the first match\<close>

lemma delete_first_no_match:
  "filter p ds = [] \<Longrightarrow> delete_first p ds = (0, ds)"
  by (induction ds) (auto split: if_splits)

lemma delete_first_here:
  "filter p pre = [] \<Longrightarrow> p d \<Longrightarrow> delete_first p (pre @ d # post) = (1, pre @ post)"
  by (induction pre) (auto split: if_splits)

lemma delete_first_count:
  "fst (delete_first p ds) = (if filter p ds = [] then 0 else 1)"
  by (induction ds) (auto split: prod.split)

lemma delete_first_subset:
  "set (snd (delete_first p ds)) \<subseteq> set ds"
  by (induction ds) (auto split: prod.splits)

lemma delete_first_distinct:
  "distinct (map ID ds) \<Longrightarrow> distinct (map ID (snd (delete_first p ds)))"
proof (induction ds)
  case Nil
  then show ?case by simp
next
  case (Cons d ds)
  have "set (snd (delete_first p ds)) \<subseteq> set ds" by (rule delete_first_subset)
  with Cons show ?case by (auto split: prod.splits)
qed

text \<open>With unique identifiers, deleting the document of identifier \<open>i\<close> leaves none.\<close>

lemma delete_first_removes_id:
  assumes "distinct (map ID ds)" and "filter (\<lambda>d. ID d = i \<and> q d) ds \<noteq> []"
  shows "filter (\<lambda>d. ID d = i) (snd (delete_first (\<lambda>d. ID d = i \<and> q d) ds)) = []"
  using assms
proof (induction ds)
  case Nil
  then show ?case by simp
next
  case (Cons d ds)
  show ?case
  proof (cases "ID d = i \<and> q d")
    case True
    from Cons.prems(1) have "ID d \<notin> ID ` set ds" by simp
    with True have "\<forall>x\<in>set ds. ID x \<noteq> i" by blast
    then have "filter (\<lambda>d. ID d = i) ds = []" by (simp add: filter_empty_conv)
    with True show ?thesis by simp
  next
    case False
    with Cons.prems(2) have rest: "filter (\<lambda>d. ID d = i \<and> q d) ds \<noteq> []" by auto
    then obtain x where "x \<in> set ds" "ID x = i" by (auto simp: filter_empty_conv)
    moreover from Cons.prems(1) have "ID d \<notin> ID ` set ds" by simp
    ultimately have "ID d \<noteq> i" by (metis imageI)
    moreover have "filter (\<lambda>d. ID d = i) (snd (delete_first (\<lambda>d. ID d = i \<and> q d) ds)) = []"
      using Cons.IH Cons.prems(1) rest by simp
    ultimately show ?thesis using False by (auto split: prod.splits)
  qed
qed

lemma DeleteTodo_authenticated:
  assumes "Get c ''user_id'' = Some u" and "ObjectIDFromHex (Param c ''id'') = Some i"
  shows "DeleteTodo getenv rt c db =
     (if driver_fails rt Call_DeleteOne then
        (JSON StatusInternalServerError (H_error ''Failed to delete todo'') c, db)
      else
        (case delete_first (\<lambda>d. ID d = i \<and> UserID d = u)
                (GetCollection db (collectionName getenv)) of
           (n, coll') \<Rightarrow>
             (if n = 0 then JSON StatusNotFound (H_error ''Todo not found'') c
              else JSON StatusOK (H_message ''Todo deleted successfully'') c,
              PutCollection db (collectionName getenv) coll')))"
  using assms
  by (simp add: DeleteTodo_def DeleteOne_def Let_def marshal_M_def matches_id_owner_fun
      split: prod.split)

lemma DeleteTodo_no_match:
  assumes "Get c ''user_id'' = Some u" and "ObjectIDFromHex (Param c ''id'') = Some i"
    and "filter (\<lambda>d. ID d = i \<and> UserID d = u) (GetCollection db (collectionName getenv)) = []"
  shows "DeleteTodo getenv rt c db =
     (if driver_fails rt Call_DeleteOne then
        (JSON StatusInternalServerError (H_error ''Failed to delete todo'') c, db)
      else (JSON StatusNotFound (H_error ''Todo not found'') c, db))"
  using assms(3)
  by (simp add: DeleteTodo_authenticated [OF assms(1,2)] delete_first_no_match)

lemma DeleteTodo_match:
  assumes "Get c ''user_id'' = Some u" and "ObjectIDFromHex (Param c ''id'') = Some i"
    and "\<not> driver_fails rt Call_DeleteOne"
    and "GetCollection db (collectionName getenv) = pre @ d # post"
    and "filter (\<lambda>x. ID x = i \<and> UserID x = u) pre = []"
    and "ID d = i" and "UserID d = u"
  shows "DeleteTodo getenv rt c db =
     (JSON StatusOK (H_message ''Todo deleted successfully'') c,
      PutCollection db (collectionName getenv) (pre @ post))"
  using assms(3-)
  by (simp add: DeleteTodo_authenticated [OF assms(1,2)] delete_first_here)

lemma DeleteTodo_ok_iff:
  assumes "Get c ''user_id'' = Some u" and "ObjectIDFromHex (Param c ''id'') = Some i"
  shows "status (fst (DeleteTodo getenv rt c db)) = Some StatusOK \<longleftrightarrow>
     \<not> driver_fails rt Call_DeleteOne \<and>
     filter (\<lambda>d. ID d = i \<and> UserID d = u) (GetCollection db (collectionName getenv)) \<noteq> []"
proof -
  have "fst (delete_first (\<lambda>d. ID d = i \<and> UserID d = u)
          (GetCollection db (collectionName getenv))) =
        (if filter (\<lambda>d. ID d = i \<and> UserID d = u)
             (GetCollection db (collectionName getenv)) = [] then 0 else 1)"
    by (rule delete_first_count)
  then show ?thesis
    by (auto simp: DeleteTodo_authenticated [OF assms] split: prod.splits if_splits)
qed

lemma DeleteTodo_twice:
  assumes id1: "Get c ''user_id'' = Some u" and hex1: "ObjectIDFromHex (Param c ''id'') = Some i"
    and uniq: "distinct (map ID (GetCollection db (collectionName getenv)))"
    and ok: "status (fst (DeleteTodo getenv rt c db)) = Some StatusOK"
    and id2: "Get c2 ''user_id'' = Some u2" and hex2: "ObjectIDFromHex (Param c2 ''id'') = Some i"
    and up: "\<not> driver_fails rt2 Call_DeleteOne"
  shows "status (fst (DeleteTodo getenv rt2 c2 (snd (DeleteTodo getenv rt c db)))) =
         Some StatusNotFound"
proof -
  let ?coll = "GetCollection db (collectionName getenv)"
  let ?p = "\<lambda>d. ID d = i \<and> UserID d = u"
  from ok have run: "\<not> driver_fails rt Call_DeleteOne" and hit: "filter ?p ?coll \<noteq> []"
    by (simp_all add: DeleteTodo_ok_iff [OF id1 hex1])
  have after: "snd (DeleteTodo getenv rt c db) =
      PutCollection db (collectionName getenv) (snd (delete_first ?p ?coll))"
    using run by (simp add: DeleteTodo_authenticated [OF id1 hex1] split: prod.split)
  have gone: "filter (\<lambda>d. ID d = i) (snd (delete_first ?p ?coll)) = []"
    by (rule delete_first_removes_id [OF uniq hit])
  then have "filter (\<lambda>d. ID d = i \<and> UserID d = u2) (snd (delete_first ?p ?coll)) = []"
    by (auto simp: filter_empty_conv)
  then have "filter (\<lambda>d. ID d = i \<and> UserID d = u2)
      (GetCollection (snd (DeleteTodo getenv rt c db)) (collectionName getenv)) = []"
    by (simp add: after)
  from DeleteTodo_no_match [OF id2 hex2 this] up show ?thesis by simp
qed

subsection \<open>Updating the first match\<close>

lemma update_first_no_match:
  "filter p ds = [] \<Longrightarrow> update_first p f ds = Some (0, ds)"
  by (induction ds) (auto split: if_splits)

lemma update_first_here:
  "filter p pre = [] \<Longrightarrow> p d \<Longrightarrow>
   update_first p f (pre @ d # post) =
     (case f d of None \<Rightarrow> None | Some d' \<Rightarrow> Some (1, pre @ d' # post))"
  by (induction pre) (auto split: if_splits option.splits)

lemma find_at:
  "filter p pre = [] \<Longrightarrow> p d \<Longrightarrow> List.find p (pre @ d # post) = Some d"
  by (induction pre) (auto split: if_splits)

lemma UpdateTodo_unbound:
  assumes "Get c ''user_id'' = Some u" and "ObjectIDFromHex (Param c ''id'') = Some i"
    and "ShouldBindJSON_UpdateTodoRequest (Body c) = Inl e"
  shows "UpdateTodo getenv rt c db = (JSON StatusBadRequest (H_error_binding e) c, db)"
  using assms by (simp add: UpdateTodo_def)

lemma UpdateTodo_driver_error:
  assumes "Get c ''user_id'' = Some u" and "ObjectIDFromHex (Param c ''id'') = Some i"
    and "ShouldBindJSON_UpdateTodoRequest (Body c) = Inr req"
    and "driver_fails rt Call_UpdateOne"
  shows "UpdateTodo getenv rt c db =
     (JSON StatusInternalServerError (H_error ''Failed to update todo'') c, db)"
  using assms by (simp add: UpdateTodo_def UpdateOne_def Let_def)

lemma UpdateTodo_no_match:
  assumes "Get c ''user_id'' = Some u" and "ObjectIDFromHex (Param c ''id'') = Some i"
    and "ShouldBindJSON_UpdateTodoRequest (Body c) = Inr req"
    and "filter (\<lambda>d. ID d = i \<and> UserID d = u) (GetCollection db (collectionName getenv)) = []"
  shows "UpdateTodo getenv rt c db =
     (if driver_fails rt Call_UpdateOne then
        (JSON StatusInternalServerError (H_error ''Failed to update todo'') c, db)
      else (JSON StatusNotFound (H_error ''Todo not found'') c, db))"
  using assms
  by (simp add: UpdateTodo_def UpdateOne_def Let_def marshal_M_def matches_id_owner_fun
      update_first_no_match)

lemma UpdateTodo_match:
  assumes "Get c ''user_id'' = Some u" and "ObjectIDFromHex (Param c ''id'') = Some i"
    and "ShouldBindJSON_UpdateTodoRequest (Body c) = Inr req"
    and "\<not> driver_fails rt Call_UpdateOne"
    and "GetCollection db (collectionName getenv) = pre @ d # post"
    and "filter (\<lambda>x. ID x = i \<and> UserID x = u) pre = []"
    and "ID d = i" and "UserID d = u"
  shows "UpdateTodo getenv rt c db =
     (let d' = d\<lparr>UpdatedAt := persisted (time_Now rt 0),
                  Todo.Title := (case UpdateTodoRequest.Title req of
                                   None \<Rightarrow> Todo.Title d | Some t \<Rightarrow> t),
                  Todo.Description := (case UpdateTodoRequest.Description req of
                                         None \<Rightarrow> Todo.Description d | Some s \<Rightarrow> s),
                  Todo.Completed := (case UpdateTodoRequest.Completed req of
                                       None \<Rightarrow> Todo.Completed d | Some b \<Rightarrow> b)\<rparr>
      in (if driver_fails rt Call_FindOne then
            JSON StatusInternalServerError (H_error ''Failed to fetch updated todo'') c
          else JSON StatusOK (H_todo d') c,
          PutCollection db (collectionName getenv) (pre @ d' # post)))"
  using assms
  by (cases "UpdateTodoRequest.Title req"; cases "UpdateTodoRequest.Description req";
      cases "UpdateTodoRequest.Completed req")
    (simp_all add: UpdateTodo_def UpdateOne_def FindOne_def Let_def matches_id_owner_fun
      update_first_here find_at apply_update_def set_field_def marshal_M_def)

lemma UpdateTodo_not_ok:
  assumes "Get c ''user_id'' = Some u" and "ObjectIDFromHex (Param c ''id'') = Some i"
    and "filter (\<lambda>d. ID d = i \<and> UserID d = u) (GetCollection db (collectionName getenv)) = []"
  shows "status (fst (UpdateTodo getenv rt c db)) \<noteq> Some StatusOK"
proof (cases "ShouldBindJSON_UpdateTodoRequest (Body c)")
  case (Inl e)
  with assms(1,2) show ?thesis by (simp add: UpdateTodo_def)
next
  case (Inr req)
  show ?thesis by (simp add: UpdateTodo_no_match [OF assms(1,2) Inr assms(3)])
qed

text \<open>
  Claim C1, as the code has it. For a caller with identity \<open>u\<close> and a well-formed
  identifier \<open>i\<close>, the filter of update and delete matches exactly the documents with
  identifier \<open>i\<close> and owner \<open>u\<close>, and each handler acts on the first such document
  and on no other:
  \<^item> delete answers 500 and changes nothing when the driver call returns an error;
    otherwise 404, changing nothing, when no stored todo has both; otherwise 200, and
    exactly the first such todo is removed;
  \<^item> update answers 400 and changes nothing when its body does not bind, whatever the
    store holds; otherwise 500, changing nothing, when the driver call returns an error;
    otherwise 404, changing nothing, when no stored todo has both; otherwise only the
    first such todo is rewritten, keeping its identifier and owner, and the answer is
    200 with it (500 when the read-back returns an error);
  \<^item> when no stored todo has both, neither handler ever answers 200;
  \<^item> after a delete of \<open>i\<close> answered 200, in a collection of unique identifiers, a
    second delete of \<open>i\<close> by any caller answers 404 when its driver call returns no
    error.
\<close>

theorem mutation_scoped_to_id_and_owner:
  assumes "Get c ''user_id'' = Some u" and "ObjectIDFromHex (Param c ''id'') = Some i"
  shows
    "(\<forall>x. matches (marshal_M [(''_id'', OID i), (''user_id'', Str u)]) x =
           (ID x = i \<and> UserID x = u)) \<and>
     (driver_fails rt Call_DeleteOne \<longrightarrow>
        DeleteTodo getenv rt c db =
          (JSON StatusInternalServerError (H_error ''Failed to delete todo'') c, db)) \<and>
     (\<not> driver_fails rt Call_DeleteOne \<and>
      filter (\<lambda>x. ID x = i \<and> UserID x = u) (GetCollection db (collectionName getenv)) = []
        \<longrightarrow>
        DeleteTodo getenv rt c db = (JSON StatusNotFound (H_error ''Todo not found'') c, db)) \<and>
     (\<not> driver_fails rt Call_DeleteOne \<and>
      GetCollection db (collectionName getenv) = pre @ d # post \<and>
      filter (\<lambda>x. ID x = i \<and> UserID x = u) pre = [] \<and> ID d = i \<and> UserID d = u \<longrightarrow>
        DeleteTodo getenv rt c db =
          (JSON StatusOK (H_message ''Todo deleted successfully'') c,
           PutCollection db (collectionName getenv) (pre @ post))) \<and>
     (ShouldBindJSON_UpdateTodoRequest (Body c) = Inl e \<longrightarrow>
        UpdateTodo getenv rt c db = (JSON StatusBadRequest (H_error_binding e) c, db)) \<and>
     (ShouldBindJSON_UpdateTodoRequest (Body c) = Inr req \<and>
      driver_fails rt Call_UpdateOne \<longrightarrow>
        UpdateTodo getenv rt c db =
          (JSON StatusInternalServerError (H_error ''Failed to update todo'') c, db)) \<and>
     (ShouldBindJSON_UpdateTodoRequest (Body c) = Inr req \<and>
      \<not> driver_fails rt Call_UpdateOne \<and>
      filter (\<lambda>x. ID x = i \<and> UserID x = u) (GetCollection db (collectionName getenv)) = []
        \<longrightarrow>
        UpdateTodo getenv rt c db = (JSON StatusNotFound (H_error ''Todo not found'') c, db)) \<and>
     (ShouldBindJSON_UpdateTodoRequest (Body c) = Inr req \<and>
      \<not> driver_fails rt Call_UpdateOne \<and>
      GetCollection db (collectionName getenv) = pre @ d # post \<and>
      filter (\<lambda>x. ID x = i \<and> UserID x = u) pre = [] \<and> ID d = i \<and> UserID d = u \<longrightarrow>
        (\<exists>d'. snd (UpdateTodo getenv rt c db) =
                 PutCollection db (collectionName getenv) (pre @ d' # post) \<and>
               ID d' = i \<and> UserID d' = u \<and>
               fst (UpdateTodo getenv rt c db) =
                 (if driver_fails rt Call_FindOne then
                    JSON StatusInternalServerError (H_error ''Failed to fetch updated todo'') c
                  else JSON StatusOK (H_todo d') c))) \<and>
     (filter (\<lambda>x. ID x = i \<and> UserID x = u) (GetCollection db (collectionName getenv)) = []
        \<longrightarrow>
        status (fst (DeleteTodo getenv rt c db)) \<noteq> Some StatusOK \<and>
        status (fst (UpdateTodo getenv rt c db)) \<noteq> Some StatusOK) \<and>
     (distinct (map ID (GetCollection db (collectionName getenv))) \<and>
      status (fst (DeleteTodo getenv rt c db)) = Some StatusOK \<and>
      Get c2 ''user_id'' = Some u2 \<and> ObjectIDFromHex (Param c2 ''id'') = Some i \<and>
      \<not> driver_fails rt2 Call_DeleteOne \<longrightarrow>
        status (fst (DeleteTodo getenv rt2 c2 (snd (DeleteTodo getenv rt c db)))) =
          Some StatusNotFound)"
proof (intro conjI allI impI)
  fix x
  show "matches (marshal_M [(''_id'', OID i), (''user_id'', Str u)]) x =
      (ID x = i \<and> UserID x = u)"
    by (simp add: marshal_M_def matches_id_owner)
next
  assume "driver_fails rt Call_DeleteOne"
  then show "DeleteTodo getenv rt c db =
      (JSON StatusInternalServerError (H_error ''Failed to delete todo'') c, db)"
    by (simp add: DeleteTodo_authenticated [OF assms])
next
  assume "\<not> driver_fails rt Call_DeleteOne \<and>
      filter (\<lambda>x. ID x = i \<and> UserID x = u) (GetCollection db (collectionName getenv)) = []"
  then show "DeleteTodo getenv rt c db =
      (JSON StatusNotFound (H_error ''Todo not found'') c, db)"
    by (simp add: DeleteTodo_no_match [OF assms])
next
  assume "\<not> driver_fails rt Call_DeleteOne \<and>
      GetCollection db (collectionName getenv) = pre @ d # post \<and>
      filter (\<lambda>x. ID x = i \<and> UserID x = u) pre = [] \<and> ID d = i \<and> UserID d = u"
  then show "DeleteTodo getenv rt c db =
      (JSON StatusOK (H_message ''Todo deleted successfully'') c,
       PutCollection db (collectionName getenv) (pre @ post))"
    using DeleteTodo_match [OF assms] by blast
next
  assume "ShouldBindJSON_UpdateTodoRequest (Body c) = Inl e"
  then show "UpdateTodo getenv rt c db = (JSON StatusBadRequest (H_error_binding e) c, db)"
    by (rule UpdateTodo_unbound [OF assms])
next
  assume "ShouldBindJSON_UpdateTodoRequest (Body c) = Inr req \<and>
      driver_fails rt Call_UpdateOne"
  then show "UpdateTodo getenv rt c db =
      (JSON StatusInternalServerError (H_error ''Failed to update todo'') c, db)"
    using UpdateTodo_driver_error [OF assms] by blast
next
  assume miss: "ShouldBindJSON_UpdateTodoRequest (Body c) = Inr req \<and>
      \<not> driver_fails rt Call_UpdateOne \<and>
      filter (\<lambda>x. ID x = i \<and> UserID x = u) (GetCollection db (collectionName getenv)) = []"
  then have bound: "ShouldBindJSON_UpdateTodoRequest (Body c) = Inr req"
    and none: "filter (\<lambda>x. ID x = i \<and> UserID x = u)
      (GetCollection db (collectionName getenv)) = []"
    by simp_all
  from miss show "UpdateTodo getenv rt c db =
      (JSON StatusNotFound (H_error ''Todo not found'') c, db)"
    by (simp add: UpdateTodo_no_match [OF assms bound none])
next
  assume hit: "ShouldBindJSON_UpdateTodoRequest (Body c) = Inr req \<and>
      \<not> driver_fails rt Call_UpdateOne \<and>
      GetCollection db (collectionName getenv) = pre @ d # post \<and>
      filter (\<lambda>x. ID x = i \<and> UserID x = u) pre = [] \<and> ID d = i \<and> UserID d = u"
  let ?d' = "d\<lparr>UpdatedAt := persisted (time_Now rt 0),
                Todo.Title := (case UpdateTodoRequest.Title req of
                                 None \<Rightarrow> Todo.Title d | Some t \<Rightarrow> t),
                Todo.Description := (case UpdateTodoRequest.Description req of
                                       None \<Rightarrow> Todo.Description d | Some s \<Rightarrow> s),
                Todo.Completed := (case UpdateTodoRequest.Completed req of
                                     None \<Rightarrow> Todo.Completed d | Some b \<Rightarrow> b)\<rparr>"
  from hit have bound: "ShouldBindJSON_UpdateTodoRequest (Body c) = Inr req"
    and up: "\<not> driver_fails rt Call_UpdateOne"
    and stored: "GetCollection db (collectionName getenv) = pre @ d # post"
    and first_one: "filter (\<lambda>x. ID x = i \<and> UserID x = u) pre = []"
    and same: "ID d = i" and owner: "UserID d = u"
    by simp_all
  have run: "UpdateTodo getenv rt c db =
      (if driver_fails rt Call_FindOne then
         JSON StatusInternalServerError (H_error ''Failed to fetch updated todo'') c
       else JSON StatusOK (H_todo ?d') c,
       PutCollection db (collectionName getenv) (pre @ ?d' # post))"
    using UpdateTodo_match [OF assms bound up stored first_one same owner]
    by (simp add: Let_def)
  show "\<exists>d'. snd (UpdateTodo getenv rt c db) =
                 PutCollection db (collectionName getenv) (pre @ d' # post) \<and>
               ID d' = i \<and> UserID d' = u \<and>
               fst (UpdateTodo getenv rt c db) =
                 (if driver_fails rt Call_FindOne then
                    JSON StatusInternalServerError (H_error ''Failed to fetch updated todo'') c
                  else JSON StatusOK (H_todo d') c)"
    using hit by (intro exI [of _ ?d']) (simp add: run)
next
  assume none: "filter (\<lambda>x. ID x = i \<and> UserID x = u)
      (GetCollection db (collectionName getenv)) = []"
  show "status (fst (DeleteTodo getenv rt c db)) \<noteq> Some StatusOK"
    by (simp add: DeleteTodo_no_match [OF assms none])
  show "status (fst (UpdateTodo getenv rt c db)) \<noteq> Some StatusOK"
    by (rule UpdateTodo_not_ok [OF assms none])
next
  assume again: "distinct (map ID (GetCollection db (collectionName getenv))) \<and>
      status (fst (DeleteTodo getenv rt c db)) = Some StatusOK \<and>
      Get c2 ''user_id'' = Some u2 \<and> ObjectIDFromHex (Param c2 ''id'') = Some i \<and>
      \<not> driver_fails rt2 Call_DeleteOne"
  then show "status (fst (DeleteTodo getenv rt2 c2 (snd (DeleteTodo getenv rt c db)))) =
      Some StatusNotFound"
    by (blast intro: DeleteTodo_twice [OF assms])
qed

theorem mutation_scoped_to_id_and_owner_witness:
  "Get (request ''bob'' ''507f1f77bcf86cd799439011''
     (Some (JObject [(''completed'', JBool True)]))) ''user_id'' = Some ''bob'' \<and>
   ObjectIDFromHex (Param (request ''bob'' ''507f1f77bcf86cd799439011''
     (Some (JObject [(''completed'', JBool True)]))) ''id'') = Some (ID milk) \<and>
   filter (\<lambda>x. ID x = ID milk \<and> UserID x = ''bob'')
     (GetCollection two_todos (collectionName example_getenv)) = [] \<and>
   \<not> driver_fails example_runtime Call_DeleteOne \<and>
   \<not> driver_fails example_runtime Call_UpdateOne \<and>
   ShouldBindJSON_UpdateTodoRequest (Body (request ''bob'' ''507f1f77bcf86cd799439011''
     (Some (JObject [(''completed'', JBool True)])))) =
     Inr \<lparr>UpdateTodoRequest.Title = None, UpdateTodoRequest.Description = None,
          UpdateTodoRequest.Completed = Some True\<rparr> \<and>
   DeleteTodo example_getenv example_runtime (request ''bob'' ''507f1f77bcf86cd799439011''
     (Some (JObject [(''completed'', JBool True)]))) two_todos =
     (JSON StatusNotFound (H_error ''Todo not found'')
        (request ''bob'' ''507f1f77bcf86cd799439011''
           (Some (JObject [(''completed'', JBool True)]))), two_todos) \<and>
   UpdateTodo example_getenv example_runtime (request ''bob'' ''507f1f77bcf86cd799439011''
     (Some (JObject [(''completed'', JBool True)]))) two_todos =
     (JSON StatusNotFound (H_error ''Todo not found'')
        (request ''bob'' ''507f1f77bcf86cd799439011''
           (Some (JObject [(''completed'', JBool True)]))), two_todos) \<and>
   Get (request ''bob'' ''507f1f77bcf86cd799439012'' None) ''user_id'' = Some ''bob'' \<and>
   ObjectIDFromHex (Param (request ''bob'' ''507f1f77bcf86cd799439012'' None) ''id'') =
     Some (ID bread) \<and>
   GetCollection two_todos (collectionName example_getenv) = [milk] @ bread # [] \<and>
   filter (\<lambda>x. ID x = ID bread \<and> UserID x = ''bob'') [milk] = [] \<and>
   UserID bread = ''bob'' \<and>
   DeleteTodo example_getenv example_runtime
     (request ''bob'' ''507f1f77bcf86cd799439012'' None) two_todos =
     (JSON StatusOK (H_message ''Todo deleted successfully'')
        (request ''bob'' ''507f1f77bcf86cd799439012'' None),
      PutCollection two_todos (collectionName example_getenv) ([milk] @ [])) \<and>
   ShouldBindJSON_UpdateTodoRequest (Body (request ''bob'' ''507f1f77bcf86cd799439012'' None))
     = Inl SyntaxError \<and>
   UpdateTodo example_getenv example_runtime
     (request ''bob'' ''507f1f77bcf86cd799439012'' None) two_todos =
     (JSON StatusBadRequest (H_error_binding SyntaxError)
        (request ''bob'' ''507f1f77bcf86cd799439012'' None), two_todos) \<and>
   driver_fails failing_runtime Call_DeleteOne \<and>
   DeleteTodo example_getenv failing_runtime
     (request ''bob'' ''507f1f77bcf86cd799439012'' None) two_todos =
     (JSON StatusInternalServerError (H_error ''Failed to delete todo'')
        (request ''bob'' ''507f1f77bcf86cd799439012'' None), two_todos) \<and>
   Get (request ''alice'' ''507f1f77bcf86cd799439011'' None) ''user_id'' = Some ''alice'' \<and>
   ObjectIDFromHex (Param (request ''alice'' ''507f1f77bcf86cd799439011'' None) ''id'') =
     Some (ID milk) \<and>
   distinct (map ID (GetCollection two_todos (collectionName example_getenv))) \<and>
   status (fst (DeleteTodo example_getenv example_runtime
     (request ''alice'' ''507f1f77bcf86cd799439011'' None) two_todos)) = Some StatusOK \<and>
   \<not> driver_fails second_runtime Call_DeleteOne \<and>
   status (fst (DeleteTodo example_getenv second_runtime
     (request ''alice'' ''507f1f77bcf86cd799439011'' None)
     (snd (DeleteTodo example_getenv example_runtime
        (request ''alice'' ''507f1f77bcf86cd799439011'' None) two_todos)))) =
     Some StatusNotFound"
proof -
  let ?s = "request ''bob'' ''507f1f77bcf86cd799439011''
     (Some (JObject [(''completed'', JBool True)]))"
  let ?b = "request ''bob'' ''507f1f77bcf86cd799439012'' None"
  let ?a = "request ''alice'' ''507f1f77bcf86cd799439011'' None"
  have stranger: "Get ?s ''user_id'' = Some ''bob''"
    and bob: "Get ?b ''user_id'' = Some ''bob''"
    and alice: "Get ?a ''user_id'' = Some ''alice''"
    by (simp_all add: example_defs)
  have hex_s: "ObjectIDFromHex (Param ?s ''id'') = Some (ID milk)"
    and hex_b: "ObjectIDFromHex (Param ?b ''id'') = Some (ID bread)"
    and hex_a: "ObjectIDFromHex (Param ?a ''id'') = Some (ID milk)"
    by (simp_all add: example_defs driver_defs)
  have none: "filter (\<lambda>x. ID x = ID milk \<and> UserID x = ''bob'')
      (GetCollection two_todos (collectionName example_getenv)) = []"
    by (simp add: example_defs)
  have up: "\<not> driver_fails example_runtime Call_DeleteOne"
    "\<not> driver_fails example_runtime Call_UpdateOne"
    "\<not> driver_fails second_runtime Call_DeleteOne"
    and down: "driver_fails failing_runtime Call_DeleteOne"
    by (simp_all add: example_defs)
  have bound: "ShouldBindJSON_UpdateTodoRequest (Body ?s) =
      Inr \<lparr>UpdateTodoRequest.Title = None, UpdateTodoRequest.Description = None,
           UpdateTodoRequest.Completed = Some True\<rparr>"
    and unbound: "ShouldBindJSON_UpdateTodoRequest (Body ?b) = Inl SyntaxError"
    by (simp_all add: example_defs binding_defs)
  have stored: "GetCollection two_todos (collectionName example_getenv) = [milk] @ bread # []"
    and before: "filter (\<lambda>x. ID x = ID bread \<and> UserID x = ''bob'') [milk] = []"
    and owner: "UserID bread = ''bob''"
    and uniq: "distinct (map ID (GetCollection two_todos (collectionName example_getenv)))"
    by (simp_all add: example_defs)
  have ok: "status (fst (DeleteTodo example_getenv example_runtime ?a two_todos)) =
      Some StatusOK"
    by (simp add: DeleteTodo_def Let_def example_defs driver_defs)
  note for_stranger = mutation_scoped_to_id_and_owner [OF stranger hex_s,
      where getenv = example_getenv and db = two_todos and rt = example_runtime
        and req = "\<lparr>UpdateTodoRequest.Title = None, UpdateTodoRequest.Description = None,
           UpdateTodoRequest.Completed = Some True\<rparr>"]
  note for_bob = mutation_scoped_to_id_and_owner [OF bob hex_b,
      where getenv = example_getenv and db = two_todos and rt = example_runtime
        and pre = "[milk]" and d = bread and post = "[]" and e = SyntaxError]
  note for_outage = mutation_scoped_to_id_and_owner [OF bob hex_b,
      where getenv = example_getenv and db = two_todos and rt = failing_runtime]
  note for_alice = mutation_scoped_to_id_and_owner [OF alice hex_a,
      where getenv = example_getenv and db = two_todos and rt = example_runtime
        and ?c2.0 = ?a and ?u2.0 = "''alice''" and ?rt2.0 = second_runtime]
  from for_stranger none up bound
  have missed: "DeleteTodo example_getenv example_runtime ?s two_todos =
        (JSON StatusNotFound (H_error ''Todo not found'') ?s, two_todos)"
    and unmatched: "UpdateTodo example_getenv example_runtime ?s two_todos =
        (JSON StatusNotFound (H_error ''Todo not found'') ?s, two_todos)"
    by blast+
  from for_bob up stored before owner
  have removed: "DeleteTodo example_getenv example_runtime ?b two_todos =
      (JSON StatusOK (H_message ''Todo deleted successfully'') ?b,
       PutCollection two_todos (collectionName example_getenv) ([milk] @ []))"
    by blast
  from for_bob unbound
  have refused: "UpdateTodo example_getenv example_runtime ?b two_todos =
      (JSON StatusBadRequest (H_error_binding SyntaxError) ?b, two_todos)"
    by blast
  from for_outage down
  have outage: "DeleteTodo example_getenv failing_runtime ?b two_todos =
      (JSON StatusInternalServerError (H_error ''Failed to delete todo'') ?b, two_todos)"
    by blast
  from for_alice uniq ok alice hex_a up
  have twice: "status (fst (DeleteTodo example_getenv second_runtime ?a
      (snd (DeleteTodo example_getenv example_runtime ?a two_todos)))) =
      Some StatusNotFound"
    by blast
  from stranger hex_s none up bound missed unmatched bob hex_b stored before owner removed
    unbound refused down outage alice hex_a uniq ok twice
  show ?thesis by blast
qed

text \<open>
  Against claim C1 as stated, two requests with a well-formed identifier that no stored
  todo of the caller carries, neither answered 404: an update with no JSON body is
  answered 400, and a delete during which the driver call returns an error is answered
  500.
\<close>

theorem mutation_without_match_not_404:
  "Get (request ''alice'' ''507f1f77bcf86cd799439011'' None) ''user_id'' = Some ''alice'' \<and>
   ObjectIDFromHex (Param (request ''alice'' ''507f1f77bcf86cd799439011'' None) ''id'') =
     Some [80, 127, 31, 119, 188, 248, 108, 215, 153, 67, 144, 17] \<and>
   GetCollection empty_database (collectionName example_getenv) = [] \<and>
   UpdateTodo example_getenv example_runtime
     (request ''alice'' ''507f1f77bcf86cd799439011'' None) empty_database =
     (JSON StatusBadRequest (H_error_binding SyntaxError)
        (request ''alice'' ''507f1f77bcf86cd799439011'' None), empty_database) \<and>
   status (fst (UpdateTodo example_getenv example_runtime
     (request ''alice'' ''507f1f77bcf86cd799439011'' None) empty_database)) \<noteq>
     Some StatusNotFound \<and>
   DeleteTodo example_getenv failing_runtime
     (request ''alice'' ''507f1f77bcf86cd799439011'' None) empty_database =
     (JSON StatusInternalServerError (H_error ''Failed to delete todo'')
        (request ''alice'' ''507f1f77bcf86cd799439011'' None), empty_database) \<and>
   status (fst (DeleteTodo example_getenv failing_runtime
     (request ''alice'' ''507f1f77bcf86cd799439011'' None) empty_database)) \<noteq>
     Some StatusNotFound"
  by (simp add: UpdateTodo_def DeleteTodo_def Let_def example_defs binding_defs driver_defs)

subsection \<open>What the update binder reads\<close>

lemma member_Cons:
  "member (kv # kvs) tag =
     (case member kvs tag of
        None \<Rightarrow> if foldKey (fst kv) = tag then Some (snd kv) else None
      | Some v \<Rightarrow> Some v)"
  by (simp add: map_add_def split: option.split del: foldKey.simps)

lemma object_UpdateTodoRequest_fields:
  "object_UpdateTodoRequest kvs r = Some r' \<Longrightarrow>
   UpdateTodoRequest.Title r' =
     (case member kvs ''title'' of
        None \<Rightarrow> UpdateTodoRequest.Title r
      | Some v \<Rightarrow> (case v of JString s \<Rightarrow> Some s | _ \<Rightarrow> None)) \<and>
   UpdateTodoRequest.Description r' =
     (case member kvs ''description'' of
        None \<Rightarrow> UpdateTodoRequest.Description r
      | Some v \<Rightarrow> (case v of JString s \<Rightarrow> Some s | _ \<Rightarrow> None)) \<and>
   UpdateTodoRequest.Completed r' =
     (case member kvs ''completed'' of
        None \<Rightarrow> UpdateTodoRequest.Completed r
      | Some v \<Rightarrow> (case v of JBool b \<Rightarrow> Some b | _ \<Rightarrow> None))"
proof (induction kvs arbitrary: r)
  case Nil
  then show ?case by simp
next
  case (Cons kv kvs)
  obtain k v where kv: "kv = (k, v)" by (cases kv)
  from Cons.prems obtain r1 where step: "object_UpdateTodoRequest kvs r1 = Some r'"
    and r1: "r1 =
      (if foldKey k = ''title'' then r\<lparr>UpdateTodoRequest.Title := the (into_string_ptr v)\<rparr>
       else if foldKey k = ''description''
         then r\<lparr>UpdateTodoRequest.Description := the (into_string_ptr v)\<rparr>
       else if foldKey k = ''completed''
         then r\<lparr>UpdateTodoRequest.Completed := the (into_bool_ptr v)\<rparr>
       else r)"
    and typed: "foldKey k = ''title'' \<or> foldKey k = ''description'' \<longrightarrow>
        into_string_ptr v \<noteq> None"
      "foldKey k = ''completed'' \<longrightarrow> into_bool_ptr v \<noteq> None"
    unfolding kv
    by (auto split: if_splits option.splits simp del: foldKey.simps)
  note IH = Cons.IH [OF step]
  show ?case
    unfolding member_Cons kv
    using IH typed
    by (auto simp: r1 into_string_ptr_def into_bool_ptr_def
        split: option.splits json.splits if_splits simp del: foldKey.simps)
qed

lemma ShouldBindJSON_UpdateTodoRequest_fields:
  assumes "ShouldBindJSON_UpdateTodoRequest (Some (JObject kvs)) = Inr req"
  shows "UpdateTodoRequest.Title req =
           (case member kvs ''title'' of Some (JString s) \<Rightarrow> Some s | _ \<Rightarrow> None) \<and>
         UpdateTodoRequest.Description req =
           (case member kvs ''description'' of Some (JString s) \<Rightarrow> Some s | _ \<Rightarrow> None) \<and>
         UpdateTodoRequest.Completed req =
           (case member kvs ''completed'' of Some (JBool b) \<Rightarrow> Some b | _ \<Rightarrow> None)"
proof -
  from assms have "object_UpdateTodoRequest kvs
      \<lparr>UpdateTodoRequest.Title = None, UpdateTodoRequest.Description = None,
       UpdateTodoRequest.Completed = None\<rparr> = Some req"
    by (auto simp: ShouldBindJSON_UpdateTodoRequest_def Unmarshal_UpdateTodoRequest_def
        split: option.splits)
  from object_UpdateTodoRequest_fields [OF this] show ?thesis
    by (auto split: option.splits json.splits)
qed

text \<open>
  Claim C3, as the code has it. For an update request whose body binds and whose filter
  matches the stored todo \<open>d\<close> (the first document with the identifier and the
  caller's identity), with the update call returning no error, the stored todo becomes
  \<open>d'\<close>, every other document staying as it is: title, description and completed take
  the supplied value where the bound request carries one and keep their prior value
  otherwise; the updated-timestamp becomes the clock reading taken by the update, cut to
  its millisecond, so it strictly increases exactly when that millisecond is later than
  the stored value; the identifier, owner and created-timestamp are unchanged; \<open>d'\<close>
  is the todo of the 200 response (500 when the read-back returns an error). The bound
  request carries a field exactly when the body's last member of that name has a value
  of the field's type: a field that is absent, or \<open>null\<close>, is not carried.
\<close>

theorem UpdateTodo_partial_update:
  assumes "Get c ''user_id'' = Some u" and "ObjectIDFromHex (Param c ''id'') = Some i"
    and "ShouldBindJSON_UpdateTodoRequest (Body c) = Inr req"
    and "\<not> driver_fails rt Call_UpdateOne"
    and "GetCollection db (collectionName getenv) = pre @ d # post"
    and "filter (\<lambda>x. ID x = i \<and> UserID x = u) pre = []"
    and "ID d = i" and "UserID d = u"
  shows "(\<exists>d'. snd (UpdateTodo getenv rt c db) =
                PutCollection db (collectionName getenv) (pre @ d' # post) \<and>
              fst (UpdateTodo getenv rt c db) =
                (if driver_fails rt Call_FindOne then
                   JSON StatusInternalServerError (H_error ''Failed to fetch updated todo'') c
                 else JSON StatusOK (H_todo d') c) \<and>
              Todo.Title d' = (case UpdateTodoRequest.Title req of
                                 None \<Rightarrow> Todo.Title d | Some t \<Rightarrow> t) \<and>
              Todo.Description d' = (case UpdateTodoRequest.Description req of
                                       None \<Rightarrow> Todo.Description d | Some s \<Rightarrow> s) \<and>
              Todo.Completed d' = (case UpdateTodoRequest.Completed req of
                                     None \<Rightarrow> Todo.Completed d | Some b \<Rightarrow> b) \<and>
              UpdatedAt d' = (time_Now rt 0 div 1000000) * 1000000 \<and>
              (UpdatedAt d < UpdatedAt d') =
                (UpdatedAt d < (time_Now rt 0 div 1000000) * 1000000) \<and>
              ID d' = ID d \<and> UserID d' = UserID d \<and> CreatedAt d' = CreatedAt d) \<and>
         (\<forall>kvs. Body c = Some (JObject kvs) \<longrightarrow>
            UpdateTodoRequest.Title req =
              (case member kvs ''title'' of Some (JString s) \<Rightarrow> Some s | _ \<Rightarrow> None) \<and>
            UpdateTodoRequest.Description req =
              (case member kvs ''description'' of Some (JString s) \<Rightarrow> Some s | _ \<Rightarrow> None) \<and>
            UpdateTodoRequest.Completed req =
              (case member kvs ''completed'' of Some (JBool b) \<Rightarrow> Some b | _ \<Rightarrow> None)) \<and>
         (Body c = Some JNull \<longrightarrow>
            UpdateTodoRequest.Title req = None \<and> UpdateTodoRequest.Description req = None \<and>
            UpdateTodoRequest.Completed req = None)"
proof (intro conjI allI impI)
  let ?d' = "d\<lparr>UpdatedAt := persisted (time_Now rt 0),
                Todo.Title := (case UpdateTodoRequest.Title req of
                                 None \<Rightarrow> Todo.Title d | Some t \<Rightarrow> t),
                Todo.Description := (case UpdateTodoRequest.Description req of
                                       None \<Rightarrow> Todo.Description d | Some s \<Rightarrow> s),
                Todo.Completed := (case UpdateTodoRequest.Completed req of
                                     None \<Rightarrow> Todo.Completed d | Some b \<Rightarrow> b)\<rparr>"
  have run: "UpdateTodo getenv rt c db =
      (if driver_fails rt Call_FindOne then
         JSON StatusInternalServerError (H_error ''Failed to fetch updated todo'') c
       else JSON StatusOK (H_todo ?d') c,
       PutCollection db (collectionName getenv) (pre @ ?d' # post))"
    using UpdateTodo_match [OF assms] by (simp add: Let_def)
  show "\<exists>d'. snd (UpdateTodo getenv rt c db) =
                PutCollection db (collectionName getenv) (pre @ d' # post) \<and>
              fst (UpdateTodo getenv rt c db) =
                (if driver_fails rt Call_FindOne then
                   JSON StatusInternalServerError (H_error ''Failed to fetch updated todo'') c
                 else JSON StatusOK (H_todo d') c) \<and>
              Todo.Title d' = (case UpdateTodoRequest.Title req of
                                 None \<Rightarrow> Todo.Title d | Some t \<Rightarrow> t) \<and>
              Todo.Description d' = (case UpdateTodoRequest.Description req of
                                       None \<Rightarrow> Todo.Description d | Some s \<Rightarrow> s) \<and>
              Todo.Completed d' = (case UpdateTodoRequest.Completed req of
                                     None \<Rightarrow> Todo.Completed d | Some b \<Rightarrow> b) \<and>
              UpdatedAt d' = (time_Now rt 0 div 1000000) * 1000000 \<and>
              (UpdatedAt d < UpdatedAt d') =
                (UpdatedAt d < (time_Now rt 0 div 1000000) * 1000000) \<and>
              ID d' = ID d \<and> UserID d' = UserID d \<and> CreatedAt d' = CreatedAt d"
    by (rule exI [of _ ?d'])
      (simp add: run persisted_def NewDateTimeFromTime_def DateTime_Time_def)
next
  fix kvs
  assume "Body c = Some (JObject kvs)"
  with assms(3) have "ShouldBindJSON_UpdateTodoRequest (Some (JObject kvs)) = Inr req"
    by simp
  from ShouldBindJSON_UpdateTodoRequest_fields [OF this]
  show "UpdateTodoRequest.Title req =
          (case member kvs ''title'' of Some (JString s) \<Rightarrow> Some s | _ \<Rightarrow> None)"
    and "UpdateTodoRequest.Description req =
          (case member kvs ''description'' of Some (JString s) \<Rightarrow> Some s | _ \<Rightarrow> None)"
    and "UpdateTodoRequest.Completed req =
          (case member kvs ''completed'' of Some (JBool b) \<Rightarrow> Some b | _ \<Rightarrow> None)"
    by simp_all
next
  assume "Body c = Some JNull"
  with assms(3) have zero: "req =
      \<lparr>UpdateTodoRequest.Title = None, UpdateTodoRequest.Description = None,
       UpdateTodoRequest.Completed = None\<rparr>"
    by (simp add: ShouldBindJSON_UpdateTodoRequest_def Unmarshal_UpdateTodoRequest_def)
  then show "UpdateTodoRequest.Title req = None"
    and "UpdateTodoRequest.Description req = None"
    and "UpdateTodoRequest.Completed req = None"
    by simp_all
qed

theorem UpdateTodo_partial_update_witness:
  "Get (request ''bob'' ''507f1f77bcf86cd799439012''
     (Some (JObject [(''completed'', JBool True)]))) ''user_id'' = Some ''bob'' \<and>
   ObjectIDFromHex (Param (request ''bob'' ''507f1f77bcf86cd799439012''
     (Some (JObject [(''completed'', JBool True)]))) ''id'') = Some (ID bread) \<and>
   ShouldBindJSON_UpdateTodoRequest (Body (request ''bob'' ''507f1f77bcf86cd799439012''
     (Some (JObject [(''completed'', JBool True)])))) =
     Inr \<lparr>UpdateTodoRequest.Title = None, UpdateTodoRequest.Description = None,
          UpdateTodoRequest.Completed = Some True\<rparr> \<and>
   \<not> driver_fails later_runtime Call_UpdateOne \<and>
   \<not> driver_fails later_runtime Call_FindOne \<and>
   GetCollection two_todos (collectionName example_getenv) = [milk] @ bread # [] \<and>
   filter (\<lambda>x. ID x = ID bread \<and> UserID x = ''bob'') [milk] = [] \<and>
   UserID bread = ''bob'' \<and>
   time_Now later_runtime 0 = 9000300 \<and>
   UpdateTodo example_getenv later_runtime (request ''bob'' ''507f1f77bcf86cd799439012''
     (Some (JObject [(''completed'', JBool True)]))) two_todos =
     (JSON StatusOK (H_todo (bread\<lparr>UpdatedAt := 9000000, Todo.Completed := True\<rparr>))
        (request ''bob'' ''507f1f77bcf86cd799439012''
           (Some (JObject [(''completed'', JBool True)]))),
      PutCollection two_todos ''todos''
        [milk, bread\<lparr>UpdatedAt := 9000000, Todo.Completed := True\<rparr>]) \<and>
   Body (request ''bob'' ''507f1f77bcf86cd799439012''
     (Some (JObject [(''completed'', JBool True)]))) =
     Some (JObject [(''completed'', JBool True)]) \<and>
   member [(''completed'', JBool True)] ''completed'' = Some (JBool True) \<and>
   member [(''completed'', JBool True)] ''title'' = None"
proof -
  let ?c = "request ''bob'' ''507f1f77bcf86cd799439012''
     (Some (JObject [(''completed'', JBool True)]))"
  have caller: "Get ?c ''user_id'' = Some ''bob''"
    and body: "Body ?c = Some (JObject [(''completed'', JBool True)])"
    by (simp_all add: example_defs)
  have hex: "ObjectIDFromHex (Param ?c ''id'') = Some (ID bread)"
    by (simp add: example_defs driver_defs)
  have bound: "ShouldBindJSON_UpdateTodoRequest (Body ?c) =
      Inr \<lparr>UpdateTodoRequest.Title = None, UpdateTodoRequest.Description = None,
           UpdateTodoRequest.Completed = Some True\<rparr>"
    by (simp add: example_defs binding_defs)
  have up: "\<not> driver_fails later_runtime Call_UpdateOne"
    and reread: "\<not> driver_fails later_runtime Call_FindOne"
    and reading: "time_Now later_runtime 0 = 9000300"
    by (simp_all add: example_defs)
  have stored: "GetCollection two_todos (collectionName example_getenv) = [milk] @ bread # []"
    by (simp add: example_defs)
  have first_one: "filter (\<lambda>x. ID x = ID bread \<and> UserID x = ''bob'') [milk] = []"
    by (simp add: example_defs)
  have same_id: "ID bread = ID bread" by simp
  have owner: "UserID bread = ''bob''"
    by (simp add: example_defs)
  have carried: "member [(''completed'', JBool True)] ''completed'' = Some (JBool True)"
    "member [(''completed'', JBool True)] ''title'' = None"
    by (simp_all add: toLower_def)
  have run: "UpdateTodo example_getenv later_runtime ?c two_todos =
     (JSON StatusOK (H_todo (bread\<lparr>UpdatedAt := 9000000, Todo.Completed := True\<rparr>)) ?c,
      PutCollection two_todos ''todos''
        [milk, bread\<lparr>UpdatedAt := 9000000, Todo.Completed := True\<rparr>])"
    using UpdateTodo_partial_update [OF caller hex bound up stored first_one same_id owner]
    by (simp add: UpdateTodo_def Let_def example_defs binding_defs driver_defs)
  from caller hex bound up reread stored first_one owner reading run body carried
  show ?thesis by blast
qed

text \<open>
  Against claim C3 as stated, four update requests of alice for her todo, stored with
  the updated-timestamp 5 ms. One that reads the clock later in the same millisecond is
  answered 200 and leaves the updated-timestamp at 5 ms: no strict increase. One whose
  body carries \<open>"title": null\<close> is answered 200 and keeps the title. One during which
  the driver call returns an error, and one whose body does not bind, replace nothing.
\<close>

theorem UpdateTodo_timestamp_not_increased:
  "time_Now same_millisecond_runtime 0 = 5000900 \<and> UpdatedAt milk = 5000000 \<and>
   UpdateTodo example_getenv same_millisecond_runtime
     (request ''alice'' ''507f1f77bcf86cd799439011''
        (Some (JObject [(''completed'', JBool True)]))) two_todos =
     (JSON StatusOK (H_todo (milk\<lparr>UpdatedAt := 5000000, Todo.Completed := True\<rparr>))
        (request ''alice'' ''507f1f77bcf86cd799439011''
           (Some (JObject [(''completed'', JBool True)]))),
      PutCollection two_todos ''todos''
        [milk\<lparr>UpdatedAt := 5000000, Todo.Completed := True\<rparr>, bread]) \<and>
   \<not> UpdatedAt milk < UpdatedAt (milk\<lparr>UpdatedAt := 5000000, Todo.Completed := True\<rparr>) \<and>
   UpdateTodo example_getenv later_runtime
     (request ''alice'' ''507f1f77bcf86cd799439011''
        (Some (JObject [(''title'', JNull)]))) two_todos =
     (JSON StatusOK (H_todo (milk\<lparr>UpdatedAt := 9000000\<rparr>))
        (request ''alice'' ''507f1f77bcf86cd799439011''
           (Some (JObject [(''title'', JNull)]))),
      PutCollection two_todos ''todos'' [milk\<lparr>UpdatedAt := 9000000\<rparr>, bread]) \<and>
   Todo.Title (milk\<lparr>UpdatedAt := 9000000\<rparr>) = ''Buy milk'' \<and>
   UpdateTodo example_getenv failing_runtime
     (request ''alice'' ''507f1f77bcf86cd799439011''
        (Some (JObject [(''completed'', JBool True)]))) two_todos =
     (JSON StatusInternalServerError (H_error ''Failed to update todo'')
        (request ''alice'' ''507f1f77bcf86cd799439011''
           (Some (JObject [(''completed'', JBool True)]))), two_todos) \<and>
   UpdateTodo example_getenv later_runtime
     (request ''alice'' ''507f1f77bcf86cd799439011''
        (Some (JObject [(''title'', JNumber 7), (''completed'', JBool True)]))) two_todos =
     (JSON StatusBadRequest (H_error_binding UnmarshalTypeError)
        (request ''alice'' ''507f1f77bcf86cd799439011''
           (Some (JObject [(''title'', JNumber 7), (''completed'', JBool True)]))),
      two_todos)"
  by (simp add: UpdateTodo_def Let_def example_defs binding_defs driver_defs)

text \<open>
  Claim C4 at a failing input. Creation refuses the empty title with 400, but an update
  whose body is \<open>{"title": ""}\<close> is answered 200 and stores the empty title: the
  update path writes \<open>*req.Title\<close> unchecked.
\<close>

theorem UpdateTodo_stores_empty_title:
  "status (fst (CreateTodo example_getenv example_runtime
     (request ''alice'' [] (Some (JObject [(''title'', JString [])]))) empty_database)) =
     Some StatusBadRequest \<and>
   UpdateTodo example_getenv second_runtime
     (request ''alice'' ''507f1f77bcf86cd799439011''
        (Some (JObject [(''title'', JString [])]))) one_todo =
     (JSON StatusOK (H_todo (milk\<lparr>UpdatedAt := 7000000, Todo.Title := []\<rparr>))
        (request ''alice'' ''507f1f77bcf86cd799439011''
           (Some (JObject [(''title'', JString [])]))),
      PutCollection one_todo ''todos'' [milk\<lparr>UpdatedAt := 7000000, Todo.Title := []\<rparr>]) \<and>
   Todo.Title (milk\<lparr>UpdatedAt := 7000000, Todo.Title := []\<rparr>) = []"
  by (simp add: CreateTodo_def UpdateTodo_def Let_def example_defs binding_defs driver_defs)

subsection \<open>Identifiers stay unique\<close>

text \<open>
  The store refuses a second document with an \<open>_id\<close> it holds, \<open>$set\<close> never writes
  \<open>_id\<close>, \<open>user_id\<close> or \<open>created_at\<close>, and a delete only removes: every handler
  keeps the identifiers of a collection pairwise distinct.
\<close>

lemma set_field_keeps:
  "set_field kv d = Some d' \<Longrightarrow>
   ID d' = ID d \<and> UserID d' = UserID d \<and> CreatedAt d' = CreatedAt d"
  by (auto simp: set_field_def split: if_splits bson.splits)

lemma apply_set_keeps:
  "apply_set kvs d = Some d' \<Longrightarrow>
   ID d' = ID d \<and> UserID d' = UserID d \<and> CreatedAt d' = CreatedAt d"
proof (induction kvs arbitrary: d)
  case Nil
  then show ?case by simp
next
  case (Cons kv kvs)
  then obtain d1 where step: "set_field kv d = Some d1" and rest: "apply_set kvs d1 = Some d'"
    by (auto split: option.splits)
  from Cons.IH [OF rest] set_field_keeps [OF step] show ?case by simp
qed

lemma apply_update_keeps:
  "apply_update upd d = Some d' \<Longrightarrow>
   ID d' = ID d \<and> UserID d' = UserID d \<and> CreatedAt d' = CreatedAt d"
  by (auto simp: apply_update_def dest: apply_set_keeps
      split: list.splits prod.splits bson.splits if_splits)

lemma update_first_ids:
  assumes "\<And>d d'. f d = Some d' \<Longrightarrow> ID d' = ID d"
    and "update_first p f ds = Some (n, ds')"
  shows "map ID ds' = map ID ds"
  using assms(2)
proof (induction ds arbitrary: n ds')
  case Nil
  then show ?case by simp
next
  case (Cons d ds)
  show ?case
  proof (cases "p d")
    case True
    with Cons.prems obtain d' where "f d = Some d'" and "ds' = d' # ds"
      by (auto split: option.splits)
    with assms(1) show ?thesis by simp
  next
    case False
    with Cons.prems obtain m rest where tail: "update_first p f ds = Some (m, rest)"
      and "ds' = d # rest"
      by (auto split: option.splits)
    with Cons.IH [OF tail] show ?thesis by simp
  qed
qed

lemma GetCollection_PutCollection_other:
  "GetCollection (PutCollection db name coll) other =
     (if other = name then coll else GetCollection db other)"
  by (simp add: GetCollection_def PutCollection_def)

lemma GetTodos_database: "snd (GetTodos getenv rt c db) = db"
  by (simp add: GetTodos_def Let_def split: option.split sum.split)

lemma CreateTodo_keeps_ids_distinct:
  assumes "distinct (map ID (GetCollection db name))"
  shows "distinct (map ID (GetCollection (snd (CreateTodo getenv rt c db)) name))"
  using assms
  by (auto simp: CreateTodo_def InsertOne_def Let_def GetCollection_PutCollection_other
      marshal_Todo_def split: option.split sum.split if_splits)

lemma delete_first_result_distinct:
  "distinct (map ID ds) \<Longrightarrow> delete_first p ds = (n, ds') \<Longrightarrow> distinct (map ID ds')"
  using delete_first_distinct [of ds p] by simp

lemma update_first_result_distinct:
  assumes "distinct (map ID ds)"
    and "update_first p (apply_update upd) ds = Some (n, ds')"
  shows "distinct (map ID ds')"
proof -
  have keeps: "ID d' = ID d" if "apply_update upd d = Some d'" for d d'
    using apply_update_keeps [OF that] by simp
  have "map ID ds' = map ID ds"
    using keeps assms(2) by (rule update_first_ids)
  with assms(1) show ?thesis by simp
qed

lemma DeleteTodo_keeps_ids_distinct:
  assumes "distinct (map ID (GetCollection db name))"
  shows "distinct (map ID (GetCollection (snd (DeleteTodo getenv rt c db)) name))"
  using assms
  by (auto simp: DeleteTodo_def DeleteOne_def Let_def GetCollection_PutCollection_other
      dest: delete_first_result_distinct split: option.split sum.split prod.split if_splits)

lemma UpdateTodo_keeps_ids_distinct:
  assumes "distinct (map ID (GetCollection db name))"
  shows "distinct (map ID (GetCollection (snd (UpdateTodo getenv rt c db)) name))"
proof (cases "name = collectionName getenv")
  case False
  then have "GetCollection (snd (UpdateTodo getenv rt c db)) name = GetCollection db name"
    by (simp add: UpdateTodo_def UpdateOne_def Let_def GetCollection_PutCollection_other
        split: option.split sum.split prod.split)
  with assms show ?thesis by simp
next
  case True
  have "snd (UpdateTodo getenv rt c db) = db \<or>
      (\<exists>p upd n coll'. update_first p (apply_update upd) (GetCollection db name) = Some (n, coll')
         \<and> snd (UpdateTodo getenv rt c db) = PutCollection db name coll')"
    unfolding True
    by (simp add: UpdateTodo_def UpdateOne_def Let_def
        split: option.split sum.split prod.split) blast
  then show ?thesis
    using assms update_first_result_distinct by (auto simp del: PutCollection_same)
qed

lemma handler_keeps_ids_distinct:
  assumes "distinct (map ID (GetCollection db name))"
  shows "distinct (map ID (GetCollection (snd (handler r getenv rt c db)) name))"
  using assms
  by (cases r)
    (simp_all add: handler_def GetTodos_database CreateTodo_keeps_ids_distinct
      UpdateTodo_keeps_ids_distinct DeleteTodo_keeps_ids_distinct)

end
